theory Spec2Isabelle
  imports Main "HOL-Library.Word"
begin

unbundle bit_operations_syntax

chapter \<open>The SR-IOV control plane of the ixgbe PF driver (ixgbe\_sriov.c)\<close>

text \<open>
  A shallow embedding of \<^verbatim>\<open>src/src/ixgbe_sriov.c\<close>: the lifecycle controller
  (\<^verbatim>\<open>__ixgbe_enable_sriov\<close>, \<^verbatim>\<open>ixgbe_disable_sriov\<close>, \<^verbatim>\<open>ixgbe_pci_sriov_enable\<close>),
  the mailbox protocol engine (\<^verbatim>\<open>ixgbe_rcv_msg_from_vf\<close>) and the per-opcode handlers of
  the VF policy engine.

  Build configuration modelled: \<^verbatim>\<open>CONFIG_PCI_IOV\<close>, \<^verbatim>\<open>HAVE_NDO_SET_VF_RSS_QUERY_EN\<close>,
  \<^verbatim>\<open>HAVE_XDP_SUPPORT\<close> and \<^verbatim>\<open>CONFIG_FCOE\<close> defined; \<^verbatim>\<open>HAVE_VLAN_RX_REGISTER\<close> and
  \<^verbatim>\<open>IXGBE_DISABLE_VF_MQ\<close> undefined. Log output (\<^verbatim>\<open>e_warn\<close>, \<^verbatim>\<open>e_err\<close>, \<^verbatim>\<open>dev_info\<close>),
  \<^verbatim>\<open>msleep\<close>, \<^verbatim>\<open>IXGBE_WRITE_FLUSH\<close> and the reference counts of \<^verbatim>\<open>pci_dev_get\<close> /
  \<^verbatim>\<open>pci_dev_put\<close> carry no state of the model.
\<close>

section \<open>Machine types\<close>

type_synonym u8 = "8 word"
type_synonym u16 = "16 word"
type_synonym u32 = "32 word"

text \<open>Return codes are C \<^verbatim>\<open>int\<close>s; the errno numbers are those of the Linux uapi.\<close>

definition EPERM :: int where "EPERM = 1"
definition ENOMEM :: int where "ENOMEM = 12"
definition EINVAL :: int where "EINVAL = 22"
definition ENOSPC :: int where "ENOSPC = 28"
definition EOPNOTSUPP :: int where "EOPNOTSUPP = 95"

text \<open>Constants of the kernel headers \<^verbatim>\<open>linux/if_ether.h\<close> and \<^verbatim>\<open>linux/if_vlan.h\<close>.\<close>

definition ETH_ALEN :: nat where "ETH_ALEN = 6"
definition ETH_HLEN :: nat where "ETH_HLEN = 14"
definition ETH_FRAME_LEN :: nat where "ETH_FRAME_LEN = 1514"
definition ETH_FCS_LEN :: nat where "ETH_FCS_LEN = 4"
definition VLAN_VID_MASK :: u32 where "VLAN_VID_MASK = 0x0fff"
definition VLAN_PRIO_SHIFT :: nat where "VLAN_PRIO_SHIFT = 13"

text \<open>\<^verbatim>\<open>BIT(n)\<close> of \<^verbatim>\<open>linux/bits.h\<close>, at 32 bits.\<close>

definition BIT :: "nat \<Rightarrow> u32" where
  "BIT n = push_bit n 1"

section \<open>Macros and enumerators of the driver headers\<close>

text \<open>
  The headers \<^verbatim>\<open>ixgbe.h\<close>, \<^verbatim>\<open>ixgbe_type.h\<close>, \<^verbatim>\<open>ixgbe_mbx.h\<close> and \<^verbatim>\<open>ixgbe_sriov.h\<close> are not
  part of the source under study. Every macro and enumerator that \<^verbatim>\<open>ixgbe_sriov.c\<close>
  takes from them is a parameter of the model: the names are those of the source, the
  values are supplied by a header assignment \<open>d\<close> that every function receives.
\<close>

datatype (plugins only: code) mbx_macro =
    IXGBE_VT_MSGTYPE_SUCCESS | IXGBE_VT_MSGTYPE_FAILURE | IXGBE_VT_MSGTYPE_CTS
  | IXGBE_VT_MSGINFO_MASK | IXGBE_VT_MSGINFO_SHIFT
  | IXGBE_VFMAILBOX_SIZE | IXGBE_VF_PERMADDR_MSG_LEN | IXGBE_ERR_MBX
  | IXGBE_VF_TX_QUEUES | IXGBE_VF_RX_QUEUES | IXGBE_VF_TRANS_VLAN | IXGBE_VF_DEF_QUEUE

datatype (plugins only: code) vf_opcode =
    IXGBE_VF_RESET | IXGBE_VF_SET_MAC_ADDR | IXGBE_VF_SET_MULTICAST | IXGBE_VF_SET_VLAN
  | IXGBE_VF_SET_LPE | IXGBE_VF_SET_MACVLAN | IXGBE_VF_API_NEGOTIATE | IXGBE_VF_GET_QUEUES
  | IXGBE_VF_GET_RETA | IXGBE_VF_GET_RSS_KEY | IXGBE_VF_UPDATE_XCAST_MODE
  | IXGBE_VF_GET_LINK_STATE

datatype (plugins only: code) enumerator =
    ixgbe_mbox_api_10 | ixgbe_mbox_api_20 | ixgbe_mbox_api_11 | ixgbe_mbox_api_12
  | ixgbe_mbox_api_13
  | IXGBEVF_XCAST_MODE_NONE | IXGBEVF_XCAST_MODE_MULTI | IXGBEVF_XCAST_MODE_ALLMULTI
  | IXGBEVF_XCAST_MODE_PROMISC
  | ixgbe_mac_82599EB | ixgbe_mac_X550

datatype (plugins only: code) reg_macro =
    IXGBE_VMOLR_BAM | IXGBE_VMOLR_ROMPE | IXGBE_VMOLR_MPE | IXGBE_VMOLR_UPE
  | IXGBE_VMOLR_VPE | IXGBE_VMOLR_AUPE
  | IXGBE_MAX_JUMBO_FRAME_SIZE | IXGBE_MHADD_MFS_MASK | IXGBE_MHADD_MFS_SHIFT
  | IXGBE_VLVF_ENTRIES | IXGBE_VLVF_VLANID_MASK
  | IXGBE_QDE_ENABLE | IXGBE_QDE_HIDE_VLAN | IXGBE_QDE_WRITE | IXGBE_QDE_IDX_SHIFT
  | IXGBE_VMVIR_VLANA_DEFAULT | IXGBE_FCTRL_UPE | IXGBE_TXDCTL_ENABLE
  | IXGBE_PFDTXGSWC_VT_LBEN | IXGBE_GPIE_VTMODE_MASK | IXGBE_VT_CTL_POOL_MASK

datatype (plugins only: code) drv_macro =
    IXGBE_FLAG_SRIOV_ENABLED | IXGBE_FLAG_VMDQ_ENABLED | IXGBE_FLAG_SRIOV_L2SWITCH_ENABLE
  | IXGBE_FLAG_SRIOV_REPLICATION_ENABLE | IXGBE_FLAG_SRIOV_CAPABLE | IXGBE_FLAG_MDD_ENABLED
  | IXGBE_FLAG2_RSC_CAPABLE | IXGBE_FLAG2_RSC_ENABLED | IXGBE_FLAG2_VLAN_PROMISC
  | IXGBE_MAX_VFS_1TC | IXGBE_MAX_VFS_4TC | IXGBE_MAX_VFS_8TC
  | IXGBE_MAX_VF_MC_ENTRIES | IXGBE_MAX_PF_MACVLANS | IXGBE_DCB_MAX_TRAFFIC_CLASS
  | IXGBE_FCOE_JUMBO_FRAME_SIZE | IXGBE_RSS_KEY_SIZE

record headers =
  mbx :: "mbx_macro \<Rightarrow> u32"
  opc :: "vf_opcode \<Rightarrow> u32"
  enu :: "enumerator \<Rightarrow> u32"
  rgm :: "reg_macro \<Rightarrow> u32"
  drv :: "drv_macro \<Rightarrow> u32"

section \<open>Data model\<close>

text \<open>
  \<^verbatim>\<open>struct vf_data_storage\<close>, with the fields this file reads or writes. \<open>vfdev\<close> is the
  handle of the VF's PCI device (\<open>None\<close> is \<^verbatim>\<open>NULL\<close>).
\<close>

record vf_data_storage =
  vfdev :: "nat option"
  vf_mac_addresses :: "u8 list"
  vf_mc_hashes :: "u16 list"
  num_vf_mc_hashes :: u16
  clear_to_send :: bool
  pf_set_mac :: bool
  pf_vlan :: u16
  pf_qos :: u16
  tx_rate :: u16
  spoofchk_enabled :: bool
  rss_query_enabled :: bool
  trusted :: bool
  xcast_mode :: u32
  vf_api :: u32
  link_enable :: bool
  link_state :: u32

text \<open>A record as \<^verbatim>\<open>kcalloc\<close> returns it: every byte zero.\<close>

definition vf_zero :: "headers \<Rightarrow> vf_data_storage" where
  "vf_zero d = \<lparr> vfdev = None, vf_mac_addresses = replicate ETH_ALEN 0,
     vf_mc_hashes = replicate (unat (drv d IXGBE_MAX_VF_MC_ENTRIES)) 0,
     num_vf_mc_hashes = 0, clear_to_send = False, pf_set_mac = False, pf_vlan = 0,
     pf_qos = 0, tx_rate = 0, spoofchk_enabled = False, rss_query_enabled = False,
     trusted = False, xcast_mode = 0, vf_api = 0, link_enable = False, link_state = 0 \<rparr>"

text \<open>\<^verbatim>\<open>struct vf_macvlans\<close>; \<open>mv_vf\<close> is the C field \<^verbatim>\<open>vf\<close> (\<open>-1\<close>: no owner).\<close>

record vf_macvlans =
  mv_vf :: int
  mv_free :: bool
  mv_is_macvlan :: bool
  mv_vf_macvlan :: "u8 list"

text \<open>\<^verbatim>\<open>struct ixgbe_ring_feature\<close>, for \<^verbatim>\<open>ring_feature[RING_F_VMDQ]\<close>.\<close>

record ixgbe_ring_feature =
  rf_limit :: u16
  rf_mask :: u16
  rf_offset :: u16

text \<open>
  Device registers are named as the source names them; two register expressions of the
  source denote the same register exactly when they are the same macro at the same
  indices.
\<close>

datatype (plugins only: code) reg =
    IXGBE_VMOLR nat | IXGBE_VFRE nat | IXGBE_VFTE nat | IXGBE_MAXFRS
  | IXGBE_VMVIR nat | IXGBE_VLVFB nat | IXGBE_VLVF nat | IXGBE_VFTA nat
  | IXGBE_PVFTXDCTL nat | IXGBE_PFMBMEM nat nat | IXGBE_QDE | IXGBE_VMECM nat
  | IXGBE_PVFTDWBAHn nat nat nat | IXGBE_PVFTDWBALn nat nat nat
  | IXGBE_FCTRL | IXGBE_PFDTXGSWC | IXGBE_GCR_EXT | IXGBE_GPIE | IXGBE_VT_CTL

text \<open>
  \<^verbatim>\<open>struct ixgbe_hw\<close>: the register file, the trace of register writes in program order,
  and \<open>backend\<close>, the state of the filter tables that only the external register/filter
  backend reads and writes.
\<close>

record 'x ixgbe_hw =
  mac_type :: u32
  mc_filter_type :: u32
  num_rar_entries :: u32
  regs :: "reg \<Rightarrow> u32"
  reg_writes :: "(reg \<times> u32) list"
  backend :: 'x

definition IXGBE_READ_REG :: "'x ixgbe_hw \<Rightarrow> reg \<Rightarrow> u32" where
  "IXGBE_READ_REG h r = regs h r"

definition IXGBE_WRITE_REG :: "'x ixgbe_hw \<Rightarrow> reg \<Rightarrow> u32 \<Rightarrow> 'x ixgbe_hw" where
  "IXGBE_WRITE_REG h r v = h\<lparr> regs := (regs h)(r := v), reg_writes := reg_writes h @ [(r, v)] \<rparr>"

text \<open>\<^verbatim>\<open>struct net_device\<close> and \<^verbatim>\<open>struct pci_dev\<close>, as far as this file looks at them.\<close>

record net_device =
  dev_mtu :: u32
  dev_num_tc :: u8
  dev_fcoe_mtu :: bool
  dev_prio_tc_map :: "u8 \<Rightarrow> u8"

record pci_dev =
  pci_num_vf :: int
  pci_vfs_assigned :: int
  pci_sriov_cap :: bool
  pci_vf_devices :: "nat list"

text \<open>
  \<^verbatim>\<open>struct ixgbe_adapter\<close>. \<open>vfinfo\<close> and \<open>mv_list\<close> are heap arrays (\<open>None\<close> is \<^verbatim>\<open>NULL\<close>);
  \<open>mv_list\<close> holds its entries in the order \<^verbatim>\<open>list_for_each\<close> walks \<^verbatim>\<open>vf_mvs.l\<close>.

  Modelled from the spec: the mailbox transport (\<^verbatim>\<open>ixgbe_read_mbx\<close>, \<^verbatim>\<open>ixgbe_write_mbx\<close> of
  \<^verbatim>\<open>ixgbe_mbx.c\<close>) is the per-VF channel of section 6: \<open>mbx_in vf\<close> is what
  \<^verbatim>\<open>mailbox_read(vf)\<close> yields (return code and message words), \<open>mbx_out\<close> lists every
  message passed to \<^verbatim>\<open>mailbox_write\<close>, oldest first, with the VF it went to.
\<close>

record 'x ixgbe_adapter =
  hw :: "'x ixgbe_hw"
  netdev :: net_device
  pdev :: pci_dev
  flags :: u32
  flags2 :: u32
  num_vfs :: nat
  max_vfs :: nat
  vfinfo :: "vf_data_storage list option"
  mv_list :: "vf_macvlans list option"
  vmdq :: ixgbe_ring_feature
  pg_tcs :: u8
  pfc_tcs :: u8
  vt_mode :: bool
  default_up :: u8
  active_vlans :: "nat set"
  rss_indir_tbl :: "u8 list"
  rss_key :: "u32 list"
  xdp_prog :: bool
  mbx_in :: "nat \<Rightarrow> int \<times> u32 list"
  mbx_out :: "(nat \<times> u32 list) list"

section \<open>External collaborators\<close>

text \<open>
  Functions that \<^verbatim>\<open>ixgbe_sriov.c\<close> calls but does not define (the register/filter backend
  of \<^verbatim>\<open>ixgbe_main.c\<close> and \<^verbatim>\<open>hw->mac.ops\<close>, the PCI core, the allocator) are parameters,
  collected in \<open>e\<close>. A backend function reads what it is handed and returns its result
  together with the new \<^verbatim>\<open>struct ixgbe_hw\<close>: it may rewrite registers and filter tables,
  never the VF records or the mailbox. \<open>kcalloc_vfinfo\<close> and \<open>kcalloc_mv_list\<close> say whether
  the two allocations of the enable path succeed. \<open>VMDQ_P\<close> is the macro of \<^verbatim>\<open>ixgbe.h\<close>.
\<close>

record 'x externs =
  ixgbe_add_mac_filter :: "'x ixgbe_adapter \<Rightarrow> u8 list \<Rightarrow> nat \<Rightarrow> int \<times> 'x ixgbe_hw"
  ixgbe_del_mac_filter :: "'x ixgbe_adapter \<Rightarrow> u8 list \<Rightarrow> nat \<Rightarrow> int \<times> 'x ixgbe_hw"
  set_vfta :: "'x ixgbe_hw \<Rightarrow> u32 \<Rightarrow> nat \<Rightarrow> bool \<Rightarrow> bool \<Rightarrow> int \<times> 'x ixgbe_hw"
  ixgbe_update_pf_promisc_vlvf :: "'x ixgbe_adapter \<Rightarrow> u32 \<Rightarrow> 'x ixgbe_hw"
  ixgbe_write_mc_addr_list :: "'x ixgbe_adapter \<Rightarrow> 'x ixgbe_hw"
  ixgbe_set_rx_mode :: "'x ixgbe_adapter \<Rightarrow> 'x ixgbe_hw"
  set_mac_anti_spoofing :: "'x ixgbe_hw \<Rightarrow> bool \<Rightarrow> nat \<Rightarrow> 'x ixgbe_hw"
  set_vlan_anti_spoofing :: "'x ixgbe_hw \<Rightarrow> bool \<Rightarrow> nat \<Rightarrow> 'x ixgbe_hw"
  disable_mdd :: "('x ixgbe_hw \<Rightarrow> 'x ixgbe_hw) option"
  VMDQ_P :: "'x ixgbe_adapter \<Rightarrow> nat \<Rightarrow> nat"
  ixgbe_rss_indir_tbl_entries :: "'x ixgbe_adapter \<Rightarrow> nat"
  kcalloc_vfinfo :: bool
  kcalloc_mv_list :: bool
  pci_enable_sriov :: "pci_dev \<Rightarrow> int \<Rightarrow> int \<times> pci_dev"
  pci_disable_sriov :: "pci_dev \<Rightarrow> pci_dev"
  ixgbe_sriov_reinit :: "'x ixgbe_adapter \<Rightarrow> 'x ixgbe_adapter"

section \<open>Accessors\<close>

text \<open>
  \<^verbatim>\<open>adapter->vfinfo[vf]\<close>. The source indexes the table without a check; its callers
  pass \<open>vf < num_vfs\<close> with the table allocated, and the theorems below say so.
\<close>

definition vf_rec :: "'x ixgbe_adapter \<Rightarrow> nat \<Rightarrow> vf_data_storage" where
  "vf_rec a vf = the (vfinfo a) ! vf"

definition vf_set ::
  "nat \<Rightarrow> (vf_data_storage \<Rightarrow> vf_data_storage) \<Rightarrow> 'x ixgbe_adapter \<Rightarrow> 'x ixgbe_adapter" where
  "vf_set vf f a = a\<lparr> vfinfo := map_option (\<lambda>t. t[vf := f (t ! vf)]) (vfinfo a) \<rparr>"

definition rd :: "'x ixgbe_adapter \<Rightarrow> reg \<Rightarrow> u32" where
  "rd a r = IXGBE_READ_REG (hw a) r"

definition wr :: "reg \<Rightarrow> u32 \<Rightarrow> 'x ixgbe_adapter \<Rightarrow> 'x ixgbe_adapter" where
  "wr r v a = a\<lparr> hw := IXGBE_WRITE_REG (hw a) r v \<rparr>"

text \<open>\<^verbatim>\<open>__ALIGN_MASK(1, ~vmdq->mask)\<close>, that is \<^verbatim>\<open>(1 + ~mask) & ~~mask\<close>, computed at 32 bits.\<close>

definition q_per_pool :: "'x ixgbe_adapter \<Rightarrow> nat" where
  "q_per_pool a =
     (let m = (ucast (rf_mask (vmdq a)) :: u32) in unat ((1 + NOT m) AND NOT (NOT m)))"

text \<open>
  \<^verbatim>\<open>int pf_max_frame = dev->mtu + ETH_HLEN\<close> of \<^verbatim>\<open>ixgbe_set_vf_lpe\<close> and \<^verbatim>\<open>ixgbe_set_vf_rx_tx\<close>:
  the sum is formed at 32 bits (\<^verbatim>\<open>mtu\<close> is an \<^verbatim>\<open>unsigned int\<close>) and read as an \<^verbatim>\<open>int\<close>;
  \<^verbatim>\<open>max_t(int, ...)\<close> compares two \<^verbatim>\<open>int\<close>s.
\<close>

definition pf_max_frame :: "headers \<Rightarrow> 'x ixgbe_adapter \<Rightarrow> int" where
  "pf_max_frame d a =
     (let f = sint (dev_mtu (netdev a) + of_nat ETH_HLEN) in
      if dev_fcoe_mtu (netdev a) then max f (sint (drv d IXGBE_FCOE_JUMBO_FRAME_SIZE)) else f)"

subsection \<open>Ethernet addresses (\<^verbatim>\<open>linux/etherdevice.h\<close>)\<close>

definition is_zero_ether_addr :: "u8 list \<Rightarrow> bool" where
  "is_zero_ether_addr m = (take ETH_ALEN m = replicate ETH_ALEN 0)"

definition is_multicast_ether_addr :: "u8 list \<Rightarrow> bool" where
  "is_multicast_ether_addr m = (hd m AND 1 = 1)"

definition is_valid_ether_addr :: "u8 list \<Rightarrow> bool" where
  "is_valid_ether_addr m = (\<not> is_multicast_ether_addr m \<and> \<not> is_zero_ether_addr m)"

subsection \<open>Byte and halfword views of a message buffer\<close>

text \<open>
  The source casts \<^verbatim>\<open>&msgbuf[1]\<close> to \<^verbatim>\<open>u8 *\<close> and \<^verbatim>\<open>u16 *\<close>. The model reads the words as
  a little-endian host does.
\<close>

definition word_bytes :: "u32 \<Rightarrow> u8 list" where
  "word_bytes w = [ucast w, ucast (drop_bit 8 w), ucast (drop_bit 16 w), ucast (drop_bit 24 w)]"

definition bytes_word :: "u8 list \<Rightarrow> u32" where
  "bytes_word bs =
     ucast (bs ! 0) OR push_bit 8 (ucast (bs ! 1)) OR push_bit 16 (ucast (bs ! 2))
       OR push_bit 24 (ucast (bs ! 3))"

definition msg_bytes :: "u32 list \<Rightarrow> u8 list" where
  "msg_bytes ws = concat (map word_bytes ws)"

fun bytes_msg :: "u8 list \<Rightarrow> u32 list" where
  "bytes_msg (b0 # b1 # b2 # b3 # bs) = bytes_word [b0, b1, b2, b3] # bytes_msg bs"
| "bytes_msg bs = []"

text \<open>\<^verbatim>\<open>(u8 *)(&msgbuf[1])\<close>, six bytes of it.\<close>

definition msg_mac :: "u32 list \<Rightarrow> u8 list" where
  "msg_mac msgbuf = take ETH_ALEN (msg_bytes (drop 1 msgbuf))"

text \<open>\<^verbatim>\<open>memcpy((u8 *)(&msgbuf[1]), src, n)\<close>.\<close>

definition memcpy_msg1 :: "u32 list \<Rightarrow> u8 list \<Rightarrow> u32 list" where
  "memcpy_msg1 msgbuf src =
     take 1 msgbuf @ bytes_msg (src @ drop (length src) (msg_bytes (drop 1 msgbuf)))"

text \<open>\<^verbatim>\<open>((u16 *)&msgbuf[1])[i]\<close>.\<close>

definition hash_list :: "u32 list \<Rightarrow> nat \<Rightarrow> u16" where
  "hash_list msgbuf i = ucast (drop_bit (16 * (i mod 2)) (msgbuf ! (1 + i div 2)))"

text \<open>\<^verbatim>\<open>(msgbuf[0] & IXGBE_VT_MSGINFO_MASK) >> IXGBE_VT_MSGINFO_SHIFT\<close>.\<close>

definition msginfo :: "headers \<Rightarrow> u32 list \<Rightarrow> u32" where
  "msginfo d msgbuf =
     drop_bit (unat (mbx d IXGBE_VT_MSGINFO_SHIFT)) (msgbuf ! 0 AND mbx d IXGBE_VT_MSGINFO_MASK)"

subsection \<open>The mailbox transport\<close>

text \<open>
  Modelled from the spec: \<^verbatim>\<open>ixgbe_read_mbx\<close> and \<^verbatim>\<open>ixgbe_write_mbx\<close> are defined in
  \<^verbatim>\<open>ixgbe_mbx.c\<close>; section 6 gives their contract as \<^verbatim>\<open>mailbox_read(vf) -> Result<Message, Error>\<close>
  and \<^verbatim>\<open>mailbox_write(vf, Message)\<close>. A read hands back the return code and \<open>len\<close> words;
  a write appends the first \<open>len\<close> words of the buffer to the channel of \<open>vf\<close>.
\<close>

definition ixgbe_read_mbx :: "'x ixgbe_adapter \<Rightarrow> nat \<Rightarrow> nat \<Rightarrow> int \<times> u32 list" where
  "ixgbe_read_mbx a len vf =
     (fst (mbx_in a vf), take len (snd (mbx_in a vf) @ replicate len 0))"

definition ixgbe_write_mbx ::
  "'x ixgbe_adapter \<Rightarrow> u32 list \<Rightarrow> nat \<Rightarrow> nat \<Rightarrow> 'x ixgbe_adapter" where
  "ixgbe_write_mbx a msg len vf = a\<lparr> mbx_out := mbx_out a @ [(vf, take len msg)] \<rparr>"

section \<open>VF policy engine\<close>

subsection \<open>\<^verbatim>\<open>ixgbe_set_vf_multicasts\<close>\<close>

definition ixgbe_set_vf_multicasts ::
  "headers \<Rightarrow> 'x externs \<Rightarrow> 'x ixgbe_adapter \<Rightarrow> u32 list \<Rightarrow> nat \<Rightarrow> int \<times> 'x ixgbe_adapter" where
  "ixgbe_set_vf_multicasts d e a msgbuf vf =
     (let entries = sint (msginfo d msgbuf);
          vmolr = rd a (IXGBE_VMOLR vf);
          entries = min entries (sint (drv d IXGBE_MAX_VF_MC_ENTRIES));
          a = vf_set vf (\<lambda>r. r\<lparr> num_vf_mc_hashes := word_of_int entries \<rparr>) a;
          a = vf_set vf (\<lambda>r. r\<lparr> vf_mc_hashes :=
                fold (\<lambda>i hs. hs[i := hash_list msgbuf i]) [0..<nat entries] (vf_mc_hashes r) \<rparr>) a;
          vmolr = vmolr OR rgm d IXGBE_VMOLR_ROMPE;
          a = wr (IXGBE_VMOLR vf) vmolr a;
          a = a\<lparr> hw := ixgbe_write_mc_addr_list e a \<rparr>
      in (0, a))"

subsection \<open>\<^verbatim>\<open>ixgbe_set_vf_vlan\<close>\<close>

text \<open>The part of \<^verbatim>\<open>ixgbe_set_vf_vlan\<close> from the VF's own \<^verbatim>\<open>set_vfta\<close> call on.\<close>

definition ixgbe_set_vf_vlan_vf ::
  "headers \<Rightarrow> 'x externs \<Rightarrow> 'x ixgbe_adapter \<Rightarrow> bool \<Rightarrow> u32 \<Rightarrow> nat \<Rightarrow> int \<times> 'x ixgbe_adapter" where
  "ixgbe_set_vf_vlan_vf d e a add vid vf =
     (let (err, h) = set_vfta e (hw a) vid vf add False;
          a = a\<lparr> hw := h \<rparr>
      in if add \<and> err = 0 then (err, a)
         else if unat vid \<in> active_vlans a then (err, a\<lparr> hw := ixgbe_update_pf_promisc_vlvf e a vid \<rparr>)
         else if flags2 a AND drv d IXGBE_FLAG2_VLAN_PROMISC = 0 then (err, a)
         else (err, a\<lparr> hw := ixgbe_update_pf_promisc_vlvf e a vid \<rparr>))"

definition ixgbe_set_vf_vlan ::
  "headers \<Rightarrow> 'x externs \<Rightarrow> 'x ixgbe_adapter \<Rightarrow> bool \<Rightarrow> u32 \<Rightarrow> nat \<Rightarrow> int \<times> 'x ixgbe_adapter" where
  "ixgbe_set_vf_vlan d e a add vid vf =
     (if add \<and> unat vid \<in> active_vlans a then
        (let (err, h) = set_vfta e (hw a) vid (VMDQ_P e a 0) True False;
             a = a\<lparr> hw := h \<rparr>
         in if err = 0 then ixgbe_set_vf_vlan_vf d e a add vid vf else (err, a))
      else ixgbe_set_vf_vlan_vf d e a add vid vf)"

subsection \<open>\<^verbatim>\<open>ixgbe_set_vf_lpe\<close>\<close>

text \<open>The \<^verbatim>\<open>switch\<close> on \<^verbatim>\<open>vf_api\<close> inside the 82599EB block: the value left in \<^verbatim>\<open>err\<close>.\<close>

definition lpe_err :: "headers \<Rightarrow> 'x ixgbe_adapter \<Rightarrow> u32 \<Rightarrow> nat \<Rightarrow> int" where
  "lpe_err d a max_frame vf =
     (let api = vf_api (vf_rec a vf);
          jumbo_api = (api = enu d ixgbe_mbox_api_11 \<or> api = enu d ixgbe_mbox_api_12
                        \<or> api = enu d ixgbe_mbox_api_13)
      in if jumbo_api \<and> int ETH_FRAME_LEN < pf_max_frame d a then 0
         else if int ETH_FRAME_LEN < pf_max_frame d a then - EINVAL
         else if unat max_frame > ETH_FRAME_LEN + ETH_FCS_LEN then - EINVAL
         else 0)"

text \<open>The part of \<^verbatim>\<open>ixgbe_set_vf_lpe\<close> after the 82599EB block: lines 582 to 594.\<close>

definition lpe_maxfrs :: "headers \<Rightarrow> 'x ixgbe_adapter \<Rightarrow> u32 \<Rightarrow> int \<times> 'x ixgbe_adapter" where
  "lpe_maxfrs d a max_frame =
     (let max_frs = rd a IXGBE_MAXFRS;
          max_frs = max_frs AND rgm d IXGBE_MHADD_MFS_MASK;
          max_frs = drop_bit (unat (rgm d IXGBE_MHADD_MFS_SHIFT)) max_frs
      in if max_frs < max_frame
         then (0, wr IXGBE_MAXFRS (push_bit (unat (rgm d IXGBE_MHADD_MFS_SHIFT)) max_frame) a)
         else (0, a))"

definition ixgbe_set_vf_lpe ::
  "headers \<Rightarrow> 'x ixgbe_adapter \<Rightarrow> u32 \<Rightarrow> nat \<Rightarrow> int \<times> 'x ixgbe_adapter" where
  "ixgbe_set_vf_lpe d a max_frame vf =
     (if mac_type (hw a) = enu d ixgbe_mac_82599EB then
        (let err = lpe_err d a max_frame vf;
             vf_shift = vf mod 32;
             reg_offset = vf div 32;
             vfre = rd a (IXGBE_VFRE reg_offset);
             vfre = (if err = 0 then vfre OR push_bit vf_shift 1
                     else vfre AND NOT (push_bit vf_shift 1));
             a = wr (IXGBE_VFRE reg_offset) vfre a
         in if err = 0 then lpe_maxfrs d a max_frame else (err, a))
      else lpe_maxfrs d a max_frame)"

subsection \<open>Offload and VLAN-insertion registers\<close>

definition ixgbe_set_vmolr :: "headers \<Rightarrow> 'x ixgbe_hw \<Rightarrow> nat \<Rightarrow> bool \<Rightarrow> 'x ixgbe_hw" where
  "ixgbe_set_vmolr d h vf aupe =
     (let vmolr = IXGBE_READ_REG h (IXGBE_VMOLR vf);
          vmolr = vmolr OR rgm d IXGBE_VMOLR_BAM;
          vmolr = (if aupe then vmolr OR rgm d IXGBE_VMOLR_AUPE
                   else vmolr AND NOT (rgm d IXGBE_VMOLR_AUPE))
      in IXGBE_WRITE_REG h (IXGBE_VMOLR vf) vmolr)"

definition ixgbe_set_vmvir ::
  "headers \<Rightarrow> 'x ixgbe_adapter \<Rightarrow> u16 \<Rightarrow> u16 \<Rightarrow> nat \<Rightarrow> 'x ixgbe_adapter" where
  "ixgbe_set_vmvir d a vid qos vf =
     (let vmvir = ucast vid OR push_bit VLAN_PRIO_SHIFT (ucast qos)
                    OR rgm d IXGBE_VMVIR_VLANA_DEFAULT
      in wr (IXGBE_VMVIR vf) vmvir a)"

definition ixgbe_clear_vmvir :: "'x ixgbe_adapter \<Rightarrow> nat \<Rightarrow> 'x ixgbe_adapter" where
  "ixgbe_clear_vmvir a vf = wr (IXGBE_VMVIR vf) 0 a"

subsection \<open>\<^verbatim>\<open>ixgbe_clear_vf_vlans\<close>\<close>

text \<open>The label \<^verbatim>\<open>update_vlvfb\<close> and the label \<^verbatim>\<open>update_vlvf\<close>, which falls into it.\<close>

definition update_vlvfb :: "nat \<Rightarrow> u32 \<Rightarrow> 'x ixgbe_adapter \<Rightarrow> 'x ixgbe_adapter" where
  "update_vlvfb word vlvfb a = wr (IXGBE_VLVFB word) vlvfb a"

definition update_vlvf ::
  "headers \<Rightarrow> nat \<Rightarrow> nat \<Rightarrow> u32 \<Rightarrow> 'x ixgbe_adapter \<Rightarrow> 'x ixgbe_adapter" where
  "update_vlvf d i word vlvfb a =
     (let a = wr (IXGBE_VLVF i) 0 a;
          vlvfb = (if flags2 a AND drv d IXGBE_FLAG2_VLAN_PROMISC = 0 then 0 else vlvfb)
      in update_vlvfb word vlvfb a)"

text \<open>One pass of the loop body, for entry \<open>i\<close>.\<close>

definition clear_vf_vlans_entry ::
  "headers \<Rightarrow> 'x externs \<Rightarrow> nat \<Rightarrow> nat \<Rightarrow> 'x ixgbe_adapter \<Rightarrow> 'x ixgbe_adapter" where
  "clear_vf_vlans_entry d e vf i a =
     (let pool_mask = NOT (BIT (VMDQ_P e a 0 mod 32));
          vlvfb_mask = BIT (vf mod 32);
          word = i * 2 + vf div 32;
          vlvfb = rd a (IXGBE_VLVFB word)
      in if vlvfb AND vlvfb_mask = 0 then a
         else
          (let vlvfb = vlvfb XOR vlvfb_mask;
               other = rd a (IXGBE_VLVFB (word XOR 1));
               bits = (if word mod 2 = 0 then [vlvfb, other] else [other, vlvfb])
           in if 0 < bits ! ((VMDQ_P e a 0 div 32) XOR 1) then update_vlvfb word vlvfb a
              else if 0 < bits ! (VMDQ_P e a 0 div 32) AND pool_mask then update_vlvfb word vlvfb a
              else if 0 < bits ! 0 then update_vlvf d i word vlvfb a
              else if 0 < bits ! 1 then update_vlvf d i word vlvfb a
              else
               (let vlvf = rd a (IXGBE_VLVF i)
                in if vlvf = 0 then update_vlvfb word vlvfb a
                   else
                    (let vid = unat (vlvf AND VLAN_VID_MASK);
                         mask = BIT (vid mod 32);
                         vfta = rd a (IXGBE_VFTA (vid div 32));
                         a = (if vfta AND mask = 0 then a
                              else wr (IXGBE_VFTA (vid div 32)) (vfta XOR mask) a)
                     in update_vlvf d i word vlvfb a))))"

text \<open>\<^verbatim>\<open>for (i = IXGBE_VLVF_ENTRIES; i--;)\<close>: the entries from the last down to 0.\<close>

definition ixgbe_clear_vf_vlans ::
  "headers \<Rightarrow> 'x externs \<Rightarrow> 'x ixgbe_adapter \<Rightarrow> nat \<Rightarrow> 'x ixgbe_adapter" where
  "ixgbe_clear_vf_vlans d e a vf =
     fold (clear_vf_vlans_entry d e vf) (rev [0..<unat (rgm d IXGBE_VLVF_ENTRIES)]) a"

subsection \<open>\<^verbatim>\<open>ixgbe_set_vf_macvlan\<close>\<close>

text \<open>
  The body of the first \<^verbatim>\<open>list_for_each\<close>, at the \<open>k\<close>-th entry of the list. With no
  list allocated the walk meets no entry (the source's comment at line 720: \<^verbatim>\<open>entry\<close> may
  be \<^verbatim>\<open>NULL\<close> because the allocation for the list failed).
\<close>

definition macvlan_release :: "'x externs \<Rightarrow> nat \<Rightarrow> nat \<Rightarrow> 'x ixgbe_adapter \<Rightarrow> 'x ixgbe_adapter" where
  "macvlan_release e vf k a =
     (case mv_list a of
        None \<Rightarrow> a
      | Some l \<Rightarrow>
          if mv_vf (l ! k) = int vf then
            (let ent = (l ! k)\<lparr> mv_vf := - 1, mv_free := True, mv_is_macvlan := False \<rparr>;
                 a = a\<lparr> mv_list := Some (l[k := ent]) \<rparr>;
                 (r, h) = ixgbe_del_mac_filter e a (mv_vf_macvlan ent) vf
             in a\<lparr> hw := h \<rparr>)
          else a)"

text \<open>
  The second \<^verbatim>\<open>list_for_each\<close> leaves \<^verbatim>\<open>entry\<close> at the first free entry, at the last
  entry when none is free, and \<^verbatim>\<open>NULL\<close> on an empty list: the index of the entry to
  take, if there is one.
\<close>

fun first_free :: "vf_macvlans list \<Rightarrow> nat \<Rightarrow> nat option" where
  "first_free [] k = None"
| "first_free (x # xs) k = (if mv_free x then Some k else first_free xs (Suc k))"

definition ixgbe_set_vf_macvlan ::
  "'x externs \<Rightarrow> 'x ixgbe_adapter \<Rightarrow> nat \<Rightarrow> int \<Rightarrow> u8 list \<Rightarrow> int \<times> 'x ixgbe_adapter" where
  "ixgbe_set_vf_macvlan e a vf index mac_addr =
     (let a = (if index \<le> 1
               then fold (macvlan_release e vf) [0..<length (case mv_list a of None \<Rightarrow> [] | Some l \<Rightarrow> l)] a
               else a)
      in if index = 0 then (0, a)
         else
          (case first_free (case mv_list a of None \<Rightarrow> [] | Some l \<Rightarrow> l) 0 of
             None \<Rightarrow> (- ENOSPC, a)
           | Some k \<Rightarrow>
              (let (retval, h) = ixgbe_add_mac_filter e a mac_addr vf;
                   a = a\<lparr> hw := h \<rparr>
               in if retval < 0 then (retval, a)
                  else (0, a\<lparr> mv_list := map_option (\<lambda>l. l[k := (l ! k)\<lparr> mv_free := False,
                          mv_is_macvlan := True, mv_vf := int vf,
                          mv_vf_macvlan := take ETH_ALEN mac_addr \<rparr>]) (mv_list a) \<rparr>))))"

subsection \<open>\<^verbatim>\<open>ixgbe_vf_reset_event\<close>\<close>

text \<open>The body of the loop that restarts the Tx queues of a VF (X550 and above).\<close>

definition restart_queue :: "headers \<Rightarrow> nat \<Rightarrow> nat \<Rightarrow> 'x ixgbe_adapter \<Rightarrow> 'x ixgbe_adapter" where
  "restart_queue d vf queue a =
     (let reg_idx = vf * q_per_pool a + queue;
          reg_val = rd a (IXGBE_PVFTXDCTL reg_idx)
      in if reg_val = 0 then a
         else
          (let reg_val = reg_val OR rgm d IXGBE_TXDCTL_ENABLE;
               a = wr (IXGBE_PVFTXDCTL reg_idx) reg_val a;
               reg_val = reg_val AND NOT (rgm d IXGBE_TXDCTL_ENABLE)
           in wr (IXGBE_PVFTXDCTL reg_idx) reg_val a))"

definition ixgbe_vf_reset_event ::
  "headers \<Rightarrow> 'x externs \<Rightarrow> 'x ixgbe_adapter \<Rightarrow> nat \<Rightarrow> 'x ixgbe_adapter" where
  "ixgbe_vf_reset_event d e a vf =
     (let num_tcs = dev_num_tc (netdev a);
          a = ixgbe_clear_vf_vlans d e a vf;
          (r, a) = ixgbe_set_vf_vlan d e a True (ucast (pf_vlan (vf_rec a vf))) vf;
          a = a\<lparr> hw := ixgbe_set_vmolr d (hw a) vf (pf_vlan (vf_rec a vf) = 0) \<rparr>;
          a = (if pf_vlan (vf_rec a vf) = 0 \<and> pf_qos (vf_rec a vf) = 0 \<and> num_tcs = 0
               then ixgbe_clear_vmvir a vf
               else if 0 < pf_qos (vf_rec a vf)
               then ixgbe_set_vmvir d a (pf_vlan (vf_rec a vf)) (pf_qos (vf_rec a vf)) vf
               else if num_tcs = 0
               then ixgbe_set_vmvir d a (pf_vlan (vf_rec a vf)) (pf_qos (vf_rec a vf)) vf
               else ixgbe_set_vmvir d a (pf_vlan (vf_rec a vf)) (ucast (default_up a)) vf);
          a = vf_set vf (\<lambda>r. r\<lparr> num_vf_mc_hashes := 0 \<rparr>) a;
          a = a\<lparr> hw := ixgbe_set_rx_mode e a \<rparr>;
          (r, h) = ixgbe_del_mac_filter e a (vf_mac_addresses (vf_rec a vf)) vf;
          a = a\<lparr> hw := h \<rparr>;
          (r, a) = ixgbe_set_vf_macvlan e a vf 0 [];
          a = vf_set vf (\<lambda>r. r\<lparr> vf_api := enu d ixgbe_mbox_api_10 \<rparr>) a
      in if enu d ixgbe_mac_X550 \<le> mac_type (hw a) then
           (let a = fold (restart_queue d vf) [0..<q_per_pool a] a
            in fold (\<lambda>word. wr (IXGBE_PFMBMEM vf word) 0)
                 [0..<unat (mbx d IXGBE_VFMAILBOX_SIZE)] a)
         else a)"

subsection \<open>\<^verbatim>\<open>ixgbe_set_vf_mac\<close> and \<^verbatim>\<open>ixgbe_vf_configuration\<close>\<close>

definition ixgbe_set_vf_mac ::
  "'x externs \<Rightarrow> 'x ixgbe_adapter \<Rightarrow> nat \<Rightarrow> u8 list \<Rightarrow> int \<times> 'x ixgbe_adapter" where
  "ixgbe_set_vf_mac e a vf mac_addr =
     (let (r, h) = ixgbe_del_mac_filter e a (vf_mac_addresses (vf_rec a vf)) vf;
          a = a\<lparr> hw := h \<rparr>;
          (retval, h) = ixgbe_add_mac_filter e a mac_addr vf;
          a = a\<lparr> hw := h \<rparr>
      in if 0 \<le> retval
         then (retval, vf_set vf (\<lambda>r. r\<lparr> vf_mac_addresses := take ETH_ALEN mac_addr \<rparr>) a)
         else (retval, vf_set vf (\<lambda>r. r\<lparr> vf_mac_addresses := replicate ETH_ALEN 0 \<rparr>) a))"

definition ixgbe_vf_configuration :: "'x ixgbe_adapter \<Rightarrow> u32 \<Rightarrow> int \<times> 'x ixgbe_adapter" where
  "ixgbe_vf_configuration a event_mask =
     (let vfn = unat (event_mask AND 0x3f);
          enable = (event_mask AND 0x10000000 \<noteq> 0)
      in if enable
         then (0, vf_set vfn (\<lambda>r. r\<lparr> vf_mac_addresses := replicate ETH_ALEN 0 \<rparr>) a)
         else (0, a))"

subsection \<open>\<^verbatim>\<open>ixgbe_write_qde\<close> and \<^verbatim>\<open>ixgbe_set_vf_rx_tx\<close>\<close>

definition ixgbe_write_qde :: "headers \<Rightarrow> 'x ixgbe_adapter \<Rightarrow> nat \<Rightarrow> u32 \<Rightarrow> 'x ixgbe_adapter" where
  "ixgbe_write_qde d a vf qde =
     fold (\<lambda>i. wr IXGBE_QDE (rgm d IXGBE_QDE_WRITE OR qde
                 OR push_bit (unat (rgm d IXGBE_QDE_IDX_SHIFT)) (of_nat i)))
       [vf * q_per_pool a..<(vf + 1) * q_per_pool a] a"

definition ixgbe_set_vf_rx_tx :: "headers \<Rightarrow> 'x ixgbe_adapter \<Rightarrow> nat \<Rightarrow> 'x ixgbe_adapter" where
  "ixgbe_set_vf_rx_tx d a vf =
     (let vf_shift = vf mod 32;
          reg_offset = vf div 32;
          reg_cur_tx = rd a (IXGBE_VFTE reg_offset);
          reg_cur_rx = rd a (IXGBE_VFRE reg_offset);
          reg_req_tx = (if link_enable (vf_rec a vf) then reg_cur_tx OR push_bit vf_shift 1
                        else reg_cur_tx AND NOT (push_bit vf_shift 1));
          reg_req_rx = (if link_enable (vf_rec a vf) then reg_cur_rx OR push_bit vf_shift 1
                        else reg_cur_rx AND NOT (push_bit vf_shift 1));
          reg_req_rx = (if mac_type (hw a) = enu d ixgbe_mac_82599EB
                           \<and> int ETH_FRAME_LEN < pf_max_frame d a
                        then reg_cur_rx AND NOT (push_bit vf_shift 1) else reg_req_rx);
          a = (if reg_cur_tx = reg_req_tx then a else wr (IXGBE_VFTE reg_offset) reg_req_tx a)
      in if reg_cur_rx = reg_req_rx then a else wr (IXGBE_VFRE reg_offset) reg_req_rx a)"

section \<open>Mailbox message handlers\<close>

subsection \<open>\<^verbatim>\<open>ixgbe_vf_reset_msg\<close>\<close>

text \<open>
  \<^verbatim>\<open>vf_mac\<close> points into the VF record, so each test of \<^verbatim>\<open>is_zero_ether_addr(vf_mac)\<close>
  reads the address stored at that moment, and \<^verbatim>\<open>ixgbe_set_vf_mac\<close> is handed the stored
  address itself.
\<close>

definition reset_reply :: "headers \<Rightarrow> 'x ixgbe_adapter \<Rightarrow> nat \<Rightarrow> u32 list" where
  "reset_reply d a vf =
     (let msgbuf = [0, 0, 0, 0];
          msgbuf = msgbuf[0 := opc d IXGBE_VF_RESET];
          vf_mac = vf_mac_addresses (vf_rec a vf);
          msgbuf = (if \<not> is_zero_ether_addr vf_mac \<and> pf_set_mac (vf_rec a vf)
                    then memcpy_msg1 (msgbuf[0 := msgbuf ! 0 OR mbx d IXGBE_VT_MSGTYPE_SUCCESS])
                           (take ETH_ALEN vf_mac)
                    else msgbuf[0 := msgbuf ! 0 OR mbx d IXGBE_VT_MSGTYPE_FAILURE])
      in msgbuf[3 := mc_filter_type (hw a)])"

definition ixgbe_vf_reset_msg ::
  "headers \<Rightarrow> 'x externs \<Rightarrow> 'x ixgbe_adapter \<Rightarrow> nat \<Rightarrow> int \<times> 'x ixgbe_adapter" where
  "ixgbe_vf_reset_msg d e a vf =
     (let a = ixgbe_vf_reset_event d e a vf;
          a = (if is_zero_ether_addr (vf_mac_addresses (vf_rec a vf)) then a
               else snd (ixgbe_set_vf_mac e a vf (vf_mac_addresses (vf_rec a vf))));
          vf_shift = vf mod 32;
          reg_offset = vf div 32;
          reg = rgm d IXGBE_QDE_ENABLE;
          reg = (if pf_vlan (vf_rec a vf) = 0 then reg else reg OR rgm d IXGBE_QDE_HIDE_VLAN);
          a = ixgbe_write_qde d a vf reg;
          a = ixgbe_set_vf_rx_tx d a vf;
          a = vf_set vf (\<lambda>r. r\<lparr> clear_to_send := True \<rparr>) a;
          reg = rd a (IXGBE_VMECM reg_offset);
          reg = reg OR push_bit vf_shift 1;
          a = wr (IXGBE_VMECM reg_offset) reg a;
          a = fold (\<lambda>i a. wr (IXGBE_PVFTDWBALn (q_per_pool a) vf i) 0
                             (wr (IXGBE_PVFTDWBAHn (q_per_pool a) vf i) 0 a))
                [0..<q_per_pool a] a;
          a = ixgbe_write_mbx a (reset_reply d a vf) (unat (mbx d IXGBE_VF_PERMADDR_MSG_LEN)) vf
      in (0, a))"

subsection \<open>\<^verbatim>\<open>ixgbe_set_vf_mac_addr\<close>\<close>

definition ixgbe_set_vf_mac_addr ::
  "'x externs \<Rightarrow> 'x ixgbe_adapter \<Rightarrow> u32 list \<Rightarrow> nat \<Rightarrow> int \<times> 'x ixgbe_adapter" where
  "ixgbe_set_vf_mac_addr e a msgbuf vf =
     (let new_mac = msg_mac msgbuf
      in if \<not> is_valid_ether_addr new_mac then (- 1, a)
         else if pf_set_mac (vf_rec a vf) \<and> \<not> trusted (vf_rec a vf)
                 \<and> take ETH_ALEN (vf_mac_addresses (vf_rec a vf)) \<noteq> new_mac
         then (- 1, a)
         else (let (r, a) = ixgbe_set_vf_mac e a vf new_mac
               in (if r < 0 then 1 else 0, a)))"

subsection \<open>\<^verbatim>\<open>ixgbe_set_vf_vlan_msg\<close>\<close>

definition ixgbe_set_vf_vlan_msg ::
  "headers \<Rightarrow> 'x externs \<Rightarrow> 'x ixgbe_adapter \<Rightarrow> u32 list \<Rightarrow> nat \<Rightarrow> int \<times> 'x ixgbe_adapter" where
  "ixgbe_set_vf_vlan_msg d e a msgbuf vf =
     (let add = msginfo d msgbuf;
          vid = msgbuf ! 1 AND rgm d IXGBE_VLVF_VLANID_MASK;
          tcs = dev_num_tc (netdev a)
      in if 0 < pf_vlan (vf_rec a vf) then (- 1, a)
         else if 0 < tcs then (- 1, a)
         else if vid = 0 \<and> add = 0 then (0, a)
         else ixgbe_set_vf_vlan d e a (0 < add) vid vf)"

subsection \<open>\<^verbatim>\<open>ixgbe_set_vf_macvlan_msg\<close>\<close>

definition ixgbe_set_vf_macvlan_msg ::
  "headers \<Rightarrow> 'x externs \<Rightarrow> 'x ixgbe_adapter \<Rightarrow> u32 list \<Rightarrow> nat \<Rightarrow> int \<times> 'x ixgbe_adapter" where
  "ixgbe_set_vf_macvlan_msg d e a msgbuf vf =
     (let new_mac = msg_mac msgbuf;
          index = sint (msginfo d msgbuf)
      in if pf_set_mac (vf_rec a vf) \<and> \<not> trusted (vf_rec a vf) \<and> 0 < index then (- 1, a)
         else if index = 0 then
           (let (err, a) = ixgbe_set_vf_macvlan e a vf index new_mac
            in (if err < 0 then 1 else 0, a))
         else if \<not> is_valid_ether_addr new_mac then (- 1, a)
         else
           (let a = (if spoofchk_enabled (vf_rec a vf)
                     then a\<lparr> hw := set_vlan_anti_spoofing e
                                     (set_mac_anti_spoofing e (hw a) False vf) False vf \<rparr>
                     else a);
                (err, a) = ixgbe_set_vf_macvlan e a vf index new_mac
            in (if err < 0 then 1 else 0, a)))"

subsection \<open>\<^verbatim>\<open>ixgbe_negotiate_vf_api\<close>\<close>

definition ixgbe_negotiate_vf_api ::
  "headers \<Rightarrow> 'x ixgbe_adapter \<Rightarrow> u32 list \<Rightarrow> nat \<Rightarrow> int \<times> 'x ixgbe_adapter" where
  "ixgbe_negotiate_vf_api d a msgbuf vf =
     (let api = msgbuf ! 1
      in if api = enu d ixgbe_mbox_api_10 then (0, vf_set vf (\<lambda>r. r\<lparr> vf_api := api \<rparr>) a)
         else if api = enu d ixgbe_mbox_api_11 then (0, vf_set vf (\<lambda>r. r\<lparr> vf_api := api \<rparr>) a)
         else if api = enu d ixgbe_mbox_api_12 then (0, vf_set vf (\<lambda>r. r\<lparr> vf_api := api \<rparr>) a)
         else if api = enu d ixgbe_mbox_api_13 then (0, vf_set vf (\<lambda>r. r\<lparr> vf_api := api \<rparr>) a)
         else (- 1, a))"

subsection \<open>\<^verbatim>\<open>ixgbe_get_vf_queues\<close>\<close>

definition ixgbe_get_vf_queues ::
  "headers \<Rightarrow> 'x ixgbe_adapter \<Rightarrow> u32 list \<Rightarrow> nat \<Rightarrow> int \<times> u32 list" where
  "ixgbe_get_vf_queues d a msgbuf vf =
     (let num_tcs = dev_num_tc (netdev a);
          api = vf_api (vf_rec a vf)
      in if api = enu d ixgbe_mbox_api_20 \<or> api = enu d ixgbe_mbox_api_11
              \<or> api = enu d ixgbe_mbox_api_12 \<or> api = enu d ixgbe_mbox_api_13
         then
           (let msgbuf = msgbuf[unat (mbx d IXGBE_VF_TX_QUEUES) := of_nat (q_per_pool a)];
                msgbuf = msgbuf[unat (mbx d IXGBE_VF_RX_QUEUES) := of_nat (q_per_pool a)];
                default_tc = (if 1 < num_tcs then ucast (dev_prio_tc_map (netdev a) (default_up a))
                              else 0);
                msgbuf = (if 0 < num_tcs
                          then msgbuf[unat (mbx d IXGBE_VF_TRANS_VLAN) := ucast num_tcs]
                          else if 0 < pf_vlan (vf_rec a vf)
                          then msgbuf[unat (mbx d IXGBE_VF_TRANS_VLAN) := 1]
                          else if 0 < pf_qos (vf_rec a vf)
                          then msgbuf[unat (mbx d IXGBE_VF_TRANS_VLAN) := 1]
                          else msgbuf[unat (mbx d IXGBE_VF_TRANS_VLAN) := 0]);
                msgbuf = msgbuf[unat (mbx d IXGBE_VF_DEF_QUEUE) := default_tc]
            in (0, msgbuf))
         else (- 1, msgbuf))"

subsection \<open>\<^verbatim>\<open>ixgbe_get_vf_reta\<close> and \<^verbatim>\<open>ixgbe_get_vf_rss_key\<close>\<close>

text \<open>The inner loop over \<open>j\<close>: sixteen two-bit entries packed into \<^verbatim>\<open>out_buf[i]\<close>.\<close>

definition reta_word :: "u8 list \<Rightarrow> nat \<Rightarrow> u32" where
  "reta_word reta i =
     fold (\<lambda>j w. w OR push_bit (2 * j) (ucast (reta ! (16 * i + j) AND 0x3))) [0..<16] 0"

definition ixgbe_get_vf_reta ::
  "headers \<Rightarrow> 'x externs \<Rightarrow> 'x ixgbe_adapter \<Rightarrow> u32 list \<Rightarrow> nat \<Rightarrow> int \<times> u32 list" where
  "ixgbe_get_vf_reta d e a msgbuf vf =
     (let reta_size = ixgbe_rss_indir_tbl_entries e a;
          api = vf_api (vf_rec a vf)
      in if \<not> rss_query_enabled (vf_rec a vf) then (- EPERM, msgbuf)
         else if api = enu d ixgbe_mbox_api_12 \<or> api = enu d ixgbe_mbox_api_13
         then (0, fold (\<lambda>i m. m[1 + i := reta_word (rss_indir_tbl a) i])
                    [0..<reta_size div 16] msgbuf)
         else (- EOPNOTSUPP, msgbuf))"

definition ixgbe_get_vf_rss_key ::
  "headers \<Rightarrow> 'x ixgbe_adapter \<Rightarrow> u32 list \<Rightarrow> nat \<Rightarrow> int \<times> u32 list" where
  "ixgbe_get_vf_rss_key d a msgbuf vf =
     (let api = vf_api (vf_rec a vf)
      in if \<not> rss_query_enabled (vf_rec a vf) then (- EPERM, msgbuf)
         else if api = enu d ixgbe_mbox_api_12 \<or> api = enu d ixgbe_mbox_api_13
         then (0, memcpy_msg1 msgbuf
                    (take (unat (drv d IXGBE_RSS_KEY_SIZE)) (msg_bytes (rss_key a))))
         else (- EOPNOTSUPP, msgbuf))"

subsection \<open>\<^verbatim>\<open>ixgbe_update_vf_xcast_mode\<close>\<close>

text \<open>
  The second \<^verbatim>\<open>switch\<close>: \<open>Inl\<close> is the error it returns, \<open>Inr\<close> the pair of \<^verbatim>\<open>disable\<close> and
  \<^verbatim>\<open>enable\<close> masks it leaves. \<open>mode\<close> is the local \<^verbatim>\<open>int xcast_mode\<close>.
\<close>

definition xcast_masks :: "headers \<Rightarrow> 'x ixgbe_adapter \<Rightarrow> u32 \<Rightarrow> int + u32 \<times> u32" where
  "xcast_masks d a mode =
     (let BAM = rgm d IXGBE_VMOLR_BAM; ROMPE = rgm d IXGBE_VMOLR_ROMPE;
          MPE = rgm d IXGBE_VMOLR_MPE; UPE = rgm d IXGBE_VMOLR_UPE; VPE = rgm d IXGBE_VMOLR_VPE
      in if mode = enu d IXGBEVF_XCAST_MODE_NONE
         then Inr (BAM OR ROMPE OR MPE OR UPE OR VPE, 0)
         else if mode = enu d IXGBEVF_XCAST_MODE_MULTI
         then Inr (MPE OR UPE OR VPE, BAM OR ROMPE)
         else if mode = enu d IXGBEVF_XCAST_MODE_ALLMULTI
         then Inr (UPE OR VPE, BAM OR ROMPE OR MPE)
         else if mode = enu d IXGBEVF_XCAST_MODE_PROMISC
         then (if mac_type (hw a) \<le> enu d ixgbe_mac_82599EB then Inl (- EOPNOTSUPP)
               else if rd a IXGBE_FCTRL AND rgm d IXGBE_FCTRL_UPE = 0 then Inl (- EPERM)
               else Inr (0, BAM OR ROMPE OR MPE OR UPE OR VPE))
         else Inl (- EOPNOTSUPP))"

text \<open>The function from the trust check on (line 1223).\<close>

definition xcast_apply ::
  "headers \<Rightarrow> 'x ixgbe_adapter \<Rightarrow> u32 list \<Rightarrow> nat \<Rightarrow> int \<times> u32 list \<times> 'x ixgbe_adapter" where
  "xcast_apply d a msgbuf vf =
     (let mode = msgbuf ! 1;
          mode = (if enu d IXGBEVF_XCAST_MODE_MULTI <s mode \<and> \<not> trusted (vf_rec a vf)
                  then enu d IXGBEVF_XCAST_MODE_MULTI else mode)
      in if xcast_mode (vf_rec a vf) = mode then (0, msgbuf[1 := mode], a)
         else
          (case xcast_masks d a mode of
             Inl err \<Rightarrow> (err, msgbuf, a)
           | Inr (disable, enable) \<Rightarrow>
              (let vmolr = rd a (IXGBE_VMOLR vf);
                   vmolr = vmolr AND NOT disable;
                   vmolr = vmolr OR enable;
                   a = wr (IXGBE_VMOLR vf) vmolr a;
                   a = vf_set vf (\<lambda>r. r\<lparr> xcast_mode := mode \<rparr>) a
               in (0, msgbuf[1 := mode], a))))"

definition ixgbe_update_vf_xcast_mode ::
  "headers \<Rightarrow> 'x ixgbe_adapter \<Rightarrow> u32 list \<Rightarrow> nat \<Rightarrow> int \<times> u32 list \<times> 'x ixgbe_adapter" where
  "ixgbe_update_vf_xcast_mode d a msgbuf vf =
     (let api = vf_api (vf_rec a vf)
      in if api = enu d ixgbe_mbox_api_12
         then (if msgbuf ! 1 = enu d IXGBEVF_XCAST_MODE_PROMISC then (- EOPNOTSUPP, msgbuf, a)
               else xcast_apply d a msgbuf vf)
         else if api = enu d ixgbe_mbox_api_13 then xcast_apply d a msgbuf vf
         else (- EOPNOTSUPP, msgbuf, a))"

subsection \<open>\<^verbatim>\<open>ixgbe_get_vf_link_state\<close>\<close>

definition ixgbe_get_vf_link_state ::
  "headers \<Rightarrow> 'x ixgbe_adapter \<Rightarrow> u32 list \<Rightarrow> nat \<Rightarrow> int \<times> u32 list" where
  "ixgbe_get_vf_link_state d a msgbuf vf =
     (let api = vf_api (vf_rec a vf)
      in if api = enu d ixgbe_mbox_api_12 \<or> api = enu d ixgbe_mbox_api_13
         then (0, msgbuf[1 := (if link_enable (vf_rec a vf) then 1 else 0)])
         else (- EOPNOTSUPP, msgbuf))"

section \<open>Mailbox protocol engine: \<^verbatim>\<open>ixgbe_rcv_msg_from_vf\<close>\<close>

text \<open>
  The \<^verbatim>\<open>switch\<close> on \<^verbatim>\<open>msgbuf[0] & 0xFFFF\<close>. \<open>Inr\<close> carries \<^verbatim>\<open>retval\<close>, the buffer and the
  adapter to the code after the switch; \<open>Inl\<close> is a \<^verbatim>\<open>return\<close> from inside the switch.
\<close>

definition rcv_msg_switch ::
  "headers \<Rightarrow> 'x externs \<Rightarrow> 'x ixgbe_adapter \<Rightarrow> u32 list \<Rightarrow> nat \<Rightarrow>
     int \<times> 'x ixgbe_adapter + int \<times> u32 list \<times> 'x ixgbe_adapter" where
  "rcv_msg_switch d e a msgbuf vf =
     (let op = msgbuf ! 0 AND 0xFFFF
      in if op = opc d IXGBE_VF_SET_MAC_ADDR
         then (let (r, a) = ixgbe_set_vf_mac_addr e a msgbuf vf in Inr (r, msgbuf, a))
         else if op = opc d IXGBE_VF_SET_MULTICAST
         then (let (r, a) = ixgbe_set_vf_multicasts d e a msgbuf vf in Inr (r, msgbuf, a))
         else if op = opc d IXGBE_VF_SET_VLAN
         then (let (r, a) = ixgbe_set_vf_vlan_msg d e a msgbuf vf in Inr (r, msgbuf, a))
         else if op = opc d IXGBE_VF_SET_LPE
         then (if rgm d IXGBE_MAX_JUMBO_FRAME_SIZE < msgbuf ! 1 then Inl (- EINVAL, a)
               else (let (r, a) = ixgbe_set_vf_lpe d a (msgbuf ! 1) vf in Inr (r, msgbuf, a)))
         else if op = opc d IXGBE_VF_SET_MACVLAN
         then (let (r, a) = ixgbe_set_vf_macvlan_msg d e a msgbuf vf in Inr (r, msgbuf, a))
         else if op = opc d IXGBE_VF_API_NEGOTIATE
         then (let (r, a) = ixgbe_negotiate_vf_api d a msgbuf vf in Inr (r, msgbuf, a))
         else if op = opc d IXGBE_VF_GET_QUEUES
         then (let (r, m) = ixgbe_get_vf_queues d a msgbuf vf in Inr (r, m, a))
         else if op = opc d IXGBE_VF_GET_RETA
         then (let (r, m) = ixgbe_get_vf_reta d e a msgbuf vf in Inr (r, m, a))
         else if op = opc d IXGBE_VF_GET_RSS_KEY
         then (let (r, m) = ixgbe_get_vf_rss_key d a msgbuf vf in Inr (r, m, a))
         else if op = opc d IXGBE_VF_UPDATE_XCAST_MODE
         then Inr (ixgbe_update_vf_xcast_mode d a msgbuf vf)
         else if op = opc d IXGBE_VF_GET_LINK_STATE
         then (let (r, m) = ixgbe_get_vf_link_state d a msgbuf vf in Inr (r, m, a))
         else Inr (sint (mbx d IXGBE_ERR_MBX), msgbuf, a))"

text \<open>The code after the switch (lines 1378 to 1388): tag the buffer and write it back.\<close>

definition rcv_msg_reply ::
  "headers \<Rightarrow> int \<Rightarrow> u32 list \<Rightarrow> 'x ixgbe_adapter \<Rightarrow> nat \<Rightarrow> int \<times> 'x ixgbe_adapter" where
  "rcv_msg_reply d retval msgbuf a vf =
     (let msgbuf = (if retval = 0 then msgbuf[0 := msgbuf ! 0 OR mbx d IXGBE_VT_MSGTYPE_SUCCESS]
                    else msgbuf[0 := msgbuf ! 0 OR mbx d IXGBE_VT_MSGTYPE_FAILURE]);
          msgbuf = msgbuf[0 := msgbuf ! 0 OR mbx d IXGBE_VT_MSGTYPE_CTS]
      in (retval, ixgbe_write_mbx a msgbuf (unat (mbx d IXGBE_VFMAILBOX_SIZE)) vf))"

definition ixgbe_rcv_msg_from_vf ::
  "headers \<Rightarrow> 'x externs \<Rightarrow> 'x ixgbe_adapter \<Rightarrow> nat \<Rightarrow> int \<times> 'x ixgbe_adapter" where
  "ixgbe_rcv_msg_from_vf d e a vf =
     (let mbx_size = unat (mbx d IXGBE_VFMAILBOX_SIZE);
          (retval, msgbuf) = ixgbe_read_mbx a mbx_size vf
      in if retval = 0 then
           (if msgbuf ! 0 AND (mbx d IXGBE_VT_MSGTYPE_SUCCESS OR mbx d IXGBE_VT_MSGTYPE_FAILURE) = 0
            then
              (if msgbuf ! 0 = opc d IXGBE_VF_RESET then ixgbe_vf_reset_msg d e a vf
               else if clear_to_send (vf_rec a vf) then
                 (case rcv_msg_switch d e a msgbuf vf of
                    Inl ret \<Rightarrow> ret
                  | Inr (retval, msgbuf, a) \<Rightarrow> rcv_msg_reply d retval msgbuf a vf)
               else
                 (retval, ixgbe_write_mbx a
                            (msgbuf[0 := msgbuf ! 0 OR mbx d IXGBE_VT_MSGTYPE_FAILURE]) 1 vf))
            else (retval, a))
         else (retval, a))"

section \<open>Lifecycle controller\<close>

subsection \<open>\<^verbatim>\<open>ixgbe_alloc_vf_macvlans\<close> and \<^verbatim>\<open>__ixgbe_enable_sriov\<close>\<close>

text \<open>
  \<open>ixgbe_enable_sriov'\<close> stands for \<^verbatim>\<open>__ixgbe_enable_sriov\<close>, whose name is not an
  identifier here. \<^verbatim>\<open>num_vf_macvlans\<close> is computed at 32 bits and read as an \<^verbatim>\<open>int\<close>; a negative count makes
  \<^verbatim>\<open>kcalloc\<close> fail.
\<close>

definition ixgbe_alloc_vf_macvlans ::
  "headers \<Rightarrow> 'x externs \<Rightarrow> 'x ixgbe_adapter \<Rightarrow> nat \<Rightarrow> 'x ixgbe_adapter" where
  "ixgbe_alloc_vf_macvlans d e a n =
     (let num_vf_macvlans =
            sint (num_rar_entries (hw a) - (drv d IXGBE_MAX_PF_MACVLANS + 1 + of_nat n))
      in if num_vf_macvlans = 0 then a
         else if 0 < num_vf_macvlans \<and> kcalloc_mv_list e
         then a\<lparr> mv_list := Some (replicate (nat num_vf_macvlans)
                  \<lparr> mv_vf = - 1, mv_free = True, mv_is_macvlan = False,
                    mv_vf_macvlan = replicate ETH_ALEN 0 \<rparr>) \<rparr>
         else a)"

text \<open>The body of the loop that sets the default policy of VF \<open>i\<close>.\<close>

definition vf_defaults :: "headers \<Rightarrow> vf_data_storage \<Rightarrow> vf_data_storage" where
  "vf_defaults d r = r\<lparr> spoofchk_enabled := True, link_enable := True,
     rss_query_enabled := False, trusted := False,
     xcast_mode := enu d IXGBEVF_XCAST_MODE_NONE \<rparr>"

definition ixgbe_enable_sriov' ::
  "headers \<Rightarrow> 'x externs \<Rightarrow> 'x ixgbe_adapter \<Rightarrow> nat \<Rightarrow> int \<times> 'x ixgbe_adapter" where
  "ixgbe_enable_sriov' d e a n =
     (if xdp_prog a then (- EINVAL, a)
      else
       (let a = a\<lparr> flags := flags a OR drv d IXGBE_FLAG_SRIOV_ENABLED \<rparr>;
            a = a\<lparr> flags := flags a OR drv d IXGBE_FLAG_VMDQ_ENABLED \<rparr>;
            a = (if rf_limit (vmdq a) = 0 then a\<lparr> vmdq := (vmdq a)\<lparr> rf_limit := 1 \<rparr> \<rparr> else a);
            a = a\<lparr> vfinfo := (if kcalloc_vfinfo e then Some (replicate n (vf_zero d)) else None) \<rparr>
        in if vfinfo a = None then (- ENOMEM, a)
           else
            (let a = wr IXGBE_PFDTXGSWC (rgm d IXGBE_PFDTXGSWC_VT_LBEN) a;
                 a = a\<lparr> num_vfs := n \<rparr>;
                 a = ixgbe_alloc_vf_macvlans d e a n;
                 a = a\<lparr> vmdq := (vmdq a)\<lparr> rf_offset := of_nat n \<rparr> \<rparr>;
                 a = a\<lparr> flags := flags a OR (drv d IXGBE_FLAG_SRIOV_L2SWITCH_ENABLE
                                               OR drv d IXGBE_FLAG_SRIOV_REPLICATION_ENABLE) \<rparr>;
                 a = (if mac_type (hw a) = enu d ixgbe_mac_82599EB \<and> num_vfs a < 16
                      then a\<lparr> pg_tcs := ucast (drv d IXGBE_DCB_MAX_TRAFFIC_CLASS),
                              pfc_tcs := ucast (drv d IXGBE_DCB_MAX_TRAFFIC_CLASS) \<rparr>
                      else if num_vfs a < 32 then a\<lparr> pg_tcs := 4, pfc_tcs := 4 \<rparr>
                      else a\<lparr> pg_tcs := 1, pfc_tcs := 1 \<rparr>);
                 a = a\<lparr> vt_mode := True \<rparr>;
                 a = a\<lparr> flags2 := flags2 a AND NOT (drv d IXGBE_FLAG2_RSC_CAPABLE
                                                     OR drv d IXGBE_FLAG2_RSC_ENABLED) \<rparr>;
                 a = fold (\<lambda>i. vf_set i (vf_defaults d)) [0..<num_vfs a] a
             in (0, a))))"

subsection \<open>\<^verbatim>\<open>ixgbe_get_vfs\<close>\<close>

text \<open>
  \<open>pci_vf_devices\<close> lists, in the order \<^verbatim>\<open>pci_get_device\<close> yields them, the devices that
  are virtual functions of this physical function.
\<close>

definition ixgbe_get_vfs :: "'x ixgbe_adapter \<Rightarrow> 'x ixgbe_adapter" where
  "ixgbe_get_vfs a =
     (if pci_sriov_cap (pdev a)
      then fold (\<lambda>(k, dv). vf_set k (\<lambda>r. r\<lparr> vfdev := Some dv \<rparr>))
             (zip [0..<num_vfs a] (pci_vf_devices (pdev a))) a
      else a)"

subsection \<open>\<^verbatim>\<open>ixgbe_disable_sriov\<close>\<close>

text \<open>The function from the \<^verbatim>\<open>pci_vfs_assigned\<close> test on (lines 267 to 301).\<close>

definition disable_sriov_hw ::
  "headers \<Rightarrow> 'x externs \<Rightarrow> 'x ixgbe_adapter \<Rightarrow> int \<times> 'x ixgbe_adapter" where
  "disable_sriov_hw d e a =
     (if pci_vfs_assigned (pdev a) = 0 then
        (let a = a\<lparr> pdev := pci_disable_sriov e (pdev a) \<rparr>;
             a = wr IXGBE_GCR_EXT 0 a;
             gpie = rd a IXGBE_GPIE;
             gpie = gpie AND NOT (rgm d IXGBE_GPIE_VTMODE_MASK);
             a = wr IXGBE_GPIE gpie a;
             vmdctl = rd a IXGBE_VT_CTL;
             vmdctl = vmdctl AND NOT (rgm d IXGBE_VT_CTL_POOL_MASK);
             a = wr IXGBE_VT_CTL vmdctl a;
             a = (if rf_limit (vmdq a) = 1
                  then a\<lparr> flags := flags a AND NOT (drv d IXGBE_FLAG_VMDQ_ENABLED) \<rparr> else a);
             a = a\<lparr> flags := flags a AND NOT (drv d IXGBE_FLAG_SRIOV_ENABLED) \<rparr>;
             a = a\<lparr> vmdq := (vmdq a)\<lparr> rf_offset := 0 \<rparr> \<rparr>
         in (0, a))
      else (- EPERM, a))"

definition ixgbe_disable_sriov ::
  "headers \<Rightarrow> 'x externs \<Rightarrow> 'x ixgbe_adapter \<Rightarrow> int \<times> 'x ixgbe_adapter" where
  "ixgbe_disable_sriov d e a =
     (let n = num_vfs a;
          a = a\<lparr> num_vfs := 0 \<rparr>;
          a = fold (\<lambda>vf. vf_set vf (\<lambda>r. r\<lparr> vfdev := None \<rparr>)) [0..<n] a;
          a = a\<lparr> vfinfo := None \<rparr>;
          a = a\<lparr> mv_list := None \<rparr>
      in if flags a AND drv d IXGBE_FLAG_SRIOV_ENABLED = 0 then (0, a)
         else
          (let a = (case disable_mdd e of
                      None \<Rightarrow> a
                    | Some f \<Rightarrow> if flags a AND drv d IXGBE_FLAG_MDD_ENABLED = 0
                                then a\<lparr> hw := f (hw a) \<rparr> else a)
           in disable_sriov_hw d e a))"

subsection \<open>\<^verbatim>\<open>ixgbe_pci_sriov_enable\<close>\<close>

text \<open>
  The traffic-class check of lines 338 to 357: the error it jumps to \<^verbatim>\<open>err_out\<close> with, or
  0 when the request passes.
\<close>

definition tc_check :: "headers \<Rightarrow> 'x ixgbe_adapter \<Rightarrow> int \<Rightarrow> int" where
  "tc_check d a n =
     (let num_tc = dev_num_tc (netdev a)
      in if 4 < num_tc
         then (if sint (drv d IXGBE_MAX_VFS_8TC) < n then - EPERM else 0)
         else if 1 < num_tc \<and> num_tc \<le> 4
         then (if sint (drv d IXGBE_MAX_VFS_4TC) < n then - EPERM else 0)
         else (if sint (drv d IXGBE_MAX_VFS_1TC) < n then - EPERM else 0))"

text \<open>The function from the traffic-class check on (lines 338 to 380).\<close>

definition sriov_enable_checked ::
  "headers \<Rightarrow> 'x externs \<Rightarrow> 'x ixgbe_adapter \<Rightarrow> int \<Rightarrow> int \<times> 'x ixgbe_adapter" where
  "sriov_enable_checked d e a n =
     (if tc_check d a n = 0 then
        (let (err, a) = ixgbe_enable_sriov' d e a (unat (word_of_int n :: u32))
         in if err = 0 then
              (let a = fold (\<lambda>i a. snd (ixgbe_vf_configuration a (of_nat i OR 0x10000000)))
                         [0..<num_vfs a] a;
                   a = ixgbe_sriov_reinit e a;
                   (err, p) = pci_enable_sriov e (pdev a) n;
                   a = a\<lparr> pdev := p \<rparr>
               in if err = 0 then (n, ixgbe_get_vfs a) else (err, a))
            else (err, a))
      else (tc_check d a n, a))"

definition ixgbe_pci_sriov_enable ::
  "headers \<Rightarrow> 'x externs \<Rightarrow> 'x ixgbe_adapter \<Rightarrow> int \<Rightarrow> int \<times> 'x ixgbe_adapter" where
  "ixgbe_pci_sriov_enable d e a n =
     (let pre_existing_vfs = pci_num_vf (pdev a)
      in if flags a AND drv d IXGBE_FLAG_SRIOV_CAPABLE = 0 then (- EOPNOTSUPP, a)
         else if (of_nat (num_vfs a) :: u32) = word_of_int n then (- EINVAL, a)
         else if pre_existing_vfs = 0 then sriov_enable_checked d e a n
         else if pre_existing_vfs = n then (n, a)
         else
          (let (err, a) = ixgbe_disable_sriov d e a
           in if err = 0 then sriov_enable_checked d e a n else (err, a)))"

section \<open>A sample configuration\<close>

text \<open>
  The theorems below hold for every header assignment, every backend and every adapter
  state that meets their hypotheses. To instantiate them, this section fixes one of each:
  header values as the driver's headers commonly give them, a backend whose MAC filter
  table has \<^verbatim>\<open>num_rar_entries\<close> slots (an add takes the next free slot and fails with
  \<open>-ENOMEM\<close> when there is none, a delete frees the slot of the filter it is given),
  and an adapter with two VFs.
\<close>

definition hdr0 :: headers where
  "hdr0 = \<lparr>
     mbx = (\<lambda>m. case m of
         IXGBE_VT_MSGTYPE_SUCCESS \<Rightarrow> 0x80000000 | IXGBE_VT_MSGTYPE_FAILURE \<Rightarrow> 0x40000000
       | IXGBE_VT_MSGTYPE_CTS \<Rightarrow> 0x20000000 | IXGBE_VT_MSGINFO_MASK \<Rightarrow> 0x00FF0000
       | IXGBE_VT_MSGINFO_SHIFT \<Rightarrow> 16 | IXGBE_VFMAILBOX_SIZE \<Rightarrow> 16
       | IXGBE_VF_PERMADDR_MSG_LEN \<Rightarrow> 4 | IXGBE_ERR_MBX \<Rightarrow> - 100
       | IXGBE_VF_TX_QUEUES \<Rightarrow> 1 | IXGBE_VF_RX_QUEUES \<Rightarrow> 2 | IXGBE_VF_TRANS_VLAN \<Rightarrow> 3
       | IXGBE_VF_DEF_QUEUE \<Rightarrow> 4),
     opc = (\<lambda>m. case m of
         IXGBE_VF_RESET \<Rightarrow> 0x01 | IXGBE_VF_SET_MAC_ADDR \<Rightarrow> 0x02
       | IXGBE_VF_SET_MULTICAST \<Rightarrow> 0x03 | IXGBE_VF_SET_VLAN \<Rightarrow> 0x04
       | IXGBE_VF_SET_LPE \<Rightarrow> 0x05 | IXGBE_VF_SET_MACVLAN \<Rightarrow> 0x06
       | IXGBE_VF_API_NEGOTIATE \<Rightarrow> 0x08 | IXGBE_VF_GET_QUEUES \<Rightarrow> 0x09
       | IXGBE_VF_GET_RETA \<Rightarrow> 0x0a | IXGBE_VF_GET_RSS_KEY \<Rightarrow> 0x0b
       | IXGBE_VF_UPDATE_XCAST_MODE \<Rightarrow> 0x0c | IXGBE_VF_GET_LINK_STATE \<Rightarrow> 0x10),
     enu = (\<lambda>m. case m of
         ixgbe_mbox_api_10 \<Rightarrow> 0 | ixgbe_mbox_api_20 \<Rightarrow> 1 | ixgbe_mbox_api_11 \<Rightarrow> 2
       | ixgbe_mbox_api_12 \<Rightarrow> 3 | ixgbe_mbox_api_13 \<Rightarrow> 4
       | IXGBEVF_XCAST_MODE_NONE \<Rightarrow> 0 | IXGBEVF_XCAST_MODE_MULTI \<Rightarrow> 1
       | IXGBEVF_XCAST_MODE_ALLMULTI \<Rightarrow> 2 | IXGBEVF_XCAST_MODE_PROMISC \<Rightarrow> 3
       | ixgbe_mac_82599EB \<Rightarrow> 2 | ixgbe_mac_X550 \<Rightarrow> 4),
     rgm = (\<lambda>m. case m of
         IXGBE_VMOLR_BAM \<Rightarrow> 0x08000000 | IXGBE_VMOLR_ROMPE \<Rightarrow> 0x02000000
       | IXGBE_VMOLR_MPE \<Rightarrow> 0x10000000 | IXGBE_VMOLR_UPE \<Rightarrow> 0x00400000
       | IXGBE_VMOLR_VPE \<Rightarrow> 0x00800000 | IXGBE_VMOLR_AUPE \<Rightarrow> 0x01000000
       | IXGBE_MAX_JUMBO_FRAME_SIZE \<Rightarrow> 9728 | IXGBE_MHADD_MFS_MASK \<Rightarrow> 0xFFFF0000
       | IXGBE_MHADD_MFS_SHIFT \<Rightarrow> 16 | IXGBE_VLVF_ENTRIES \<Rightarrow> 64
       | IXGBE_VLVF_VLANID_MASK \<Rightarrow> 0x00000FFF | IXGBE_QDE_ENABLE \<Rightarrow> 0x00000001
       | IXGBE_QDE_HIDE_VLAN \<Rightarrow> 0x00000002 | IXGBE_QDE_WRITE \<Rightarrow> 0x00010000
       | IXGBE_QDE_IDX_SHIFT \<Rightarrow> 8 | IXGBE_VMVIR_VLANA_DEFAULT \<Rightarrow> 0x40000000
       | IXGBE_FCTRL_UPE \<Rightarrow> 0x00000200 | IXGBE_TXDCTL_ENABLE \<Rightarrow> 0x02000000
       | IXGBE_PFDTXGSWC_VT_LBEN \<Rightarrow> 0x1 | IXGBE_GPIE_VTMODE_MASK \<Rightarrow> 0x0000C000
       | IXGBE_VT_CTL_POOL_MASK \<Rightarrow> 0x00001F80),
     drv = (\<lambda>m. case m of
         IXGBE_FLAG_SRIOV_ENABLED \<Rightarrow> 0x00100000 | IXGBE_FLAG_VMDQ_ENABLED \<Rightarrow> 0x00000100
       | IXGBE_FLAG_SRIOV_L2SWITCH_ENABLE \<Rightarrow> 0x00400000
       | IXGBE_FLAG_SRIOV_REPLICATION_ENABLE \<Rightarrow> 0x00800000
       | IXGBE_FLAG_SRIOV_CAPABLE \<Rightarrow> 0x00200000 | IXGBE_FLAG_MDD_ENABLED \<Rightarrow> 0x08000000
       | IXGBE_FLAG2_RSC_CAPABLE \<Rightarrow> 0x00000001 | IXGBE_FLAG2_RSC_ENABLED \<Rightarrow> 0x00000002
       | IXGBE_FLAG2_VLAN_PROMISC \<Rightarrow> 0x00002000
       | IXGBE_MAX_VFS_1TC \<Rightarrow> 63 | IXGBE_MAX_VFS_4TC \<Rightarrow> 31 | IXGBE_MAX_VFS_8TC \<Rightarrow> 15
       | IXGBE_MAX_VF_MC_ENTRIES \<Rightarrow> 30 | IXGBE_MAX_PF_MACVLANS \<Rightarrow> 15
       | IXGBE_DCB_MAX_TRAFFIC_CLASS \<Rightarrow> 8 | IXGBE_FCOE_JUMBO_FRAME_SIZE \<Rightarrow> 3072
       | IXGBE_RSS_KEY_SIZE \<Rightarrow> 40) \<rparr>"

type_synonym mac_table = "(u8 list \<times> nat) list"

definition tbl_add :: "mac_table ixgbe_adapter \<Rightarrow> u8 list \<Rightarrow> nat \<Rightarrow> int \<times> mac_table ixgbe_hw" where
  "tbl_add a m vf =
     (let t = backend (hw a)
      in if length t < unat (num_rar_entries (hw a))
         then (int (length t), (hw a)\<lparr> backend := t @ [(m, vf)] \<rparr>)
         else (- ENOMEM, hw a))"

definition tbl_del :: "mac_table ixgbe_adapter \<Rightarrow> u8 list \<Rightarrow> nat \<Rightarrow> int \<times> mac_table ixgbe_hw" where
  "tbl_del a m vf =
     (let t = backend (hw a)
      in if (m, vf) \<in> set t then (0, (hw a)\<lparr> backend := remove1 (m, vf) t \<rparr>)
         else (- ENOMEM, hw a))"

definition ext0 :: "mac_table externs" where
  "ext0 = \<lparr>
     ixgbe_add_mac_filter = tbl_add,
     ixgbe_del_mac_filter = tbl_del,
     set_vfta = (\<lambda>h vid pool vlan_on bypass. (0, h)),
     ixgbe_update_pf_promisc_vlvf = (\<lambda>a vid. hw a),
     ixgbe_write_mc_addr_list = hw,
     ixgbe_set_rx_mode = hw,
     set_mac_anti_spoofing = (\<lambda>h on vf. h),
     set_vlan_anti_spoofing = (\<lambda>h on vf. h),
     disable_mdd = None,
     VMDQ_P = (\<lambda>a p. p + unat (rf_offset (vmdq a))),
     ixgbe_rss_indir_tbl_entries = (\<lambda>a. 128),
     kcalloc_vfinfo = True,
     kcalloc_mv_list = True,
     pci_enable_sriov = (\<lambda>p n. (0, p\<lparr> pci_num_vf := n \<rparr>)),
     pci_disable_sriov = (\<lambda>p. p\<lparr> pci_num_vf := 0 \<rparr>),
     ixgbe_sriov_reinit = (\<lambda>a. a) \<rparr>"

text \<open>The address 02:00:00:00:00:01 and a second one, 02:00:00:00:00:02.\<close>

definition mac1 :: "u8 list" where "mac1 = [0x02, 0, 0, 0, 0, 0x01]"
definition mac2 :: "u8 list" where "mac2 = [0x02, 0, 0, 0, 0, 0x02]"

definition vf0 :: vf_data_storage where
  "vf0 = \<lparr> vfdev = None, vf_mac_addresses = [0, 0, 0, 0, 0, 0], vf_mc_hashes = [],
     num_vf_mc_hashes = 0, clear_to_send = False, pf_set_mac = False, pf_vlan = 0,
     pf_qos = 0, tx_rate = 0, spoofchk_enabled = True, rss_query_enabled = False,
     trusted = False, xcast_mode = 0, vf_api = 0, link_enable = True, link_state = 0 \<rparr>"

definition hw0 :: "mac_table ixgbe_hw" where
  "hw0 = \<lparr> mac_type = 4, mc_filter_type = 0, num_rar_entries = 2, regs = (\<lambda>r. 0),
     reg_writes = [], backend = [] \<rparr>"

definition adapter0 :: "mac_table ixgbe_adapter" where
  "adapter0 = \<lparr> hw = hw0,
     netdev = \<lparr> dev_mtu = 1500, dev_num_tc = 0, dev_fcoe_mtu = False,
                dev_prio_tc_map = (\<lambda>up. 0) \<rparr>,
     pdev = \<lparr> pci_num_vf = 2, pci_vfs_assigned = 0, pci_sriov_cap = True,
              pci_vf_devices = [100, 101] \<rparr>,
     flags = 0x00300100, flags2 = 0, num_vfs = 2, max_vfs = 0,
     vfinfo = Some [vf0, vf0], mv_list = None,
     vmdq = \<lparr> rf_limit = 1, rf_mask = 0x7C, rf_offset = 2 \<rparr>,
     pg_tcs = 1, pfc_tcs = 1, vt_mode = True, default_up = 0, active_vlans = {},
     rss_indir_tbl = [], rss_key = [], xdp_prog = False,
     mbx_in = (\<lambda>vf. (0, [])), mbx_out = [] \<rparr>"

text \<open>
  A state in which the MAC filter table is full: the PF has pinned 02:00:00:00:00:01 on
  VF 0 (trusted) and 02:00:00:00:00:02 on VF 1 (untrusted); a function-level reset of VF 0
  has removed its filter (\<^verbatim>\<open>ixgbe_vf_reset_event\<close> deletes the filter and keeps the stored
  address), and both slots of the table are now held by VF 1.
\<close>

definition mac3 :: "u8 list" where "mac3 = [0x02, 0, 0, 0, 0, 0x03]"

definition adapter_full :: "mac_table ixgbe_adapter" where
  "adapter_full = adapter0\<lparr>
     hw := hw0\<lparr> backend := [(mac2, 1), (mac3, 1)] \<rparr>,
     vfinfo := Some [vf0\<lparr> vf_mac_addresses := mac1, pf_set_mac := True, trusted := True,
                          clear_to_send := True \<rparr>,
                     vf0\<lparr> vf_mac_addresses := mac2, pf_set_mac := True,
                          clear_to_send := True \<rparr>] \<rparr>"

text \<open>A state in which the PF has pinned port VLAN 100 on VF 0 and none on VF 1.\<close>

definition adapter_pinned :: "mac_table ixgbe_adapter" where
  "adapter_pinned = adapter0\<lparr>
     vfinfo := Some [vf0\<lparr> pf_vlan := 100, clear_to_send := True \<rparr>,
                     vf0\<lparr> clear_to_send := True \<rparr>] \<rparr>"

section \<open>Notions used by the statements\<close>

text \<open>
  The adapter as \<^verbatim>\<open>ixgbe_add_mac_filter\<close> sees it inside \<^verbatim>\<open>ixgbe_set_vf_mac\<close>: after the
  filter of the stored address has been deleted.
\<close>

definition add_seen :: "'x externs \<Rightarrow> 'x ixgbe_adapter \<Rightarrow> nat \<Rightarrow> 'x ixgbe_adapter" where
  "add_seen e a vf =
     a\<lparr> hw := snd (ixgbe_del_mac_filter e a (vf_mac_addresses (vf_rec a vf)) vf) \<rparr>"

text \<open>
  The device-wide maximum frame size: the field of \<^verbatim>\<open>IXGBE_MAXFRS\<close> that
  \<^verbatim>\<open>ixgbe_set_vf_lpe\<close> extracts at lines 583 to 585.
\<close>

definition stored_max_frame :: "headers \<Rightarrow> 'x ixgbe_adapter \<Rightarrow> u32" where
  "stored_max_frame d a =
     drop_bit (unat (rgm d IXGBE_MHADD_MFS_SHIFT))
       (rd a IXGBE_MAXFRS AND rgm d IXGBE_MHADD_MFS_MASK)"

text \<open>A state whose device-wide maximum frame size is 1518 (\<^verbatim>\<open>MAXFRS = 1518 << 16\<close>).\<close>

definition adapter_1518 :: "mac_table ixgbe_adapter" where
  "adapter_1518 = adapter0\<lparr> hw := hw0\<lparr> regs := (\<lambda>r. 0)(IXGBE_MAXFRS := 0x05EE0000) \<rparr> \<rparr>"

text \<open>
  SET\_MAC\_ADDR messages asking for 02:00:00:00:00:02 and for 02:00:00:00:00:01 (the
  address bytes in words 1 and 2, little-endian).
\<close>

definition msg_set_mac2 :: "u32 list" where
  "msg_set_mac2 = [0x02, 0x00000002, 0x00000200]"

definition msg_set_mac1 :: "u32 list" where
  "msg_set_mac1 = [0x02, 0x00000002, 0x00000100]"



text \<open>
  The sample adapter with its two VFs assigned to guests, and a capable adapter with
  SR-IOV off and four traffic classes configured.
\<close>

definition adapter_assigned :: "mac_table ixgbe_adapter" where
  "adapter_assigned = adapter0\<lparr> pdev := (pdev adapter0)\<lparr> pci_vfs_assigned := 2 \<rparr> \<rparr>"

definition adapter_4tc :: "mac_table ixgbe_adapter" where
  "adapter_4tc = adapter0\<lparr> netdev := (netdev adapter0)\<lparr> dev_num_tc := 4 \<rparr>,
     pdev := (pdev adapter0)\<lparr> pci_num_vf := 0, pci_vf_devices := [] \<rparr>,
     flags := 0x00200000, num_vfs := 0, vfinfo := None \<rparr>"

text \<open>
  The part of the adapter that only this file writes: the VF records and the outgoing
  mailbox messages.
\<close>

definition soft ::
  "'x ixgbe_adapter \<Rightarrow> vf_data_storage list option \<times> (nat \<times> u32 list) list" where
  "soft a = (vfinfo a, mbx_out a)"

text \<open>
  The address a VF holds after \<^verbatim>\<open>ixgbe_vf_reset_msg\<close>: the stored one when it is zero or
  when the backend accepts it again after the reset event, zero when the backend refuses.
\<close>

definition reset_mac :: "headers \<Rightarrow> 'x externs \<Rightarrow> 'x ixgbe_adapter \<Rightarrow> nat \<Rightarrow> u8 list" where
  "reset_mac d e a vf =
     (let mac = vf_mac_addresses (vf_rec a vf)
      in if is_zero_ether_addr mac then mac
         else if 0 \<le> fst (ixgbe_add_mac_filter e
                            (add_seen e (ixgbe_vf_reset_event d e a vf) vf) mac vf)
         then mac else [0, 0, 0, 0, 0, 0])"

text \<open>
  Two more backends: one whose filter table has no free slot left whatever is deleted,
  and one that always has room.
\<close>

definition ext_nospace :: "mac_table externs" where
  "ext_nospace = ext0\<lparr> ixgbe_add_mac_filter := (\<lambda>a m vf. (- ENOMEM, hw a)) \<rparr>"

definition ext_room :: "mac_table externs" where
  "ext_room = ext0\<lparr> ixgbe_add_mac_filter := (\<lambda>a m vf. (0, hw a)) \<rparr>"

text \<open>A \<^verbatim>\<open>IXGBE_VF_SET_LPE\<close> request whose frame size is one byte above
  \<^verbatim>\<open>IXGBE_MAX_JUMBO_FRAME_SIZE\<close>.\<close>

definition msg_lpe_oversize :: "u32 list" where
  "msg_lpe_oversize = [0x05, 9729]"


text \<open>
  The table in the comment of \<^verbatim>\<open>ixgbe_pci_sriov_enable\<close> (lines 329 to 336): the largest VF
  count for a number of traffic classes.
\<close>

definition tc_cap :: "u8 \<Rightarrow> int" where
  "tc_cap num_tc = (if 4 < num_tc then 15 else if 1 < num_tc then 31 else 63)"

text \<open>
  Capable adapters with SR-IOV off: one with eight traffic classes, one with a single
  traffic class, and the one with four traffic classes when the PCI layer already reports
  eight VFs.
\<close>

definition adapter_8tc :: "mac_table ixgbe_adapter" where
  "adapter_8tc = adapter_4tc\<lparr> netdev := (netdev adapter_4tc)\<lparr> dev_num_tc := 8 \<rparr> \<rparr>"

definition adapter_1tc :: "mac_table ixgbe_adapter" where
  "adapter_1tc = adapter_4tc\<lparr> netdev := (netdev adapter_4tc)\<lparr> dev_num_tc := 1 \<rparr> \<rparr>"

definition adapter_4tc_pre :: "mac_table ixgbe_adapter" where
  "adapter_4tc_pre = adapter_4tc\<lparr> pdev := (pdev adapter_4tc)\<lparr> pci_num_vf := 8 \<rparr> \<rparr>"

text \<open>
  The pool-enable words \<^verbatim>\<open>IXGBE_VLVFB\<close> of the VLAN filter entries, and the backends that
  leave them as they find them: none of the backend functions that the reset path calls
  changes one of these words. (A backend that adds a VF to a VLAN filter entry sets the
  VF's bit in the entry's word, and is not of this kind.)
\<close>

definition vlvfb_regs :: "'x ixgbe_hw \<Rightarrow> nat \<Rightarrow> u32" where
  "vlvfb_regs h k = regs h (IXGBE_VLVFB k)"

definition keeps_vlvfb :: "'x externs \<Rightarrow> bool" where
  "keeps_vlvfb e \<longleftrightarrow>
     (\<forall>a m vf. vlvfb_regs (snd (ixgbe_add_mac_filter e a m vf)) = vlvfb_regs (hw a)) \<and>
     (\<forall>a m vf. vlvfb_regs (snd (ixgbe_del_mac_filter e a m vf)) = vlvfb_regs (hw a)) \<and>
     (\<forall>h vid pool vlan_on bypass.
        vlvfb_regs (snd (set_vfta e h vid pool vlan_on bypass)) = vlvfb_regs h) \<and>
     (\<forall>a vid. vlvfb_regs (ixgbe_update_pf_promisc_vlvf e a vid) = vlvfb_regs (hw a)) \<and>
     (\<forall>a. vlvfb_regs (ixgbe_set_rx_mode e a) = vlvfb_regs (hw a))"

text \<open>
  A state in which VF 1 (PF-pinned to 02:00:00:00:00:02, API 1.3, three multicast hashes,
  not yet clear to send) is a member of VLAN 5: VLAN filter entry 3 holds VLAN 5, the
  entry's pool-enable word \<^verbatim>\<open>VLVFB(6)\<close> has bit 1 set, and so has bit 5 of \<^verbatim>\<open>VFTA(0)\<close>.
  VF 0 has no address.
\<close>

definition adapter_vlan :: "mac_table ixgbe_adapter" where
  "adapter_vlan = adapter0\<lparr>
     hw := hw0\<lparr> regs := (\<lambda>r. 0)(IXGBE_VLVFB 6 := 0x00000002, IXGBE_VLVF 3 := 0x80000005,
                                IXGBE_VFTA 0 := 0x00000020) \<rparr>,
     vfinfo := Some [vf0,
                     vf0\<lparr> vf_mac_addresses := mac2, pf_set_mac := True, vf_api := 4,
                          num_vf_mc_hashes := 3 \<rparr>] \<rparr>"


chapter \<open>Properties\<close>

section \<open>The clear-to-send gate\<close>

text \<open>
  Claim C1. For every VF index, while the VF's \<open>clear_to_send\<close> flag is false, a pending
  mailbox message that is not RESET is answered with a FAILURE-tagged reply and its
  handler does not run: the adapter after the call is the adapter before it with one
  message added to the VF's channel, the request's header word with
  \<^verbatim>\<open>IXGBE_VT_MSGTYPE_FAILURE\<close> set. No VF record, no register (the trace of register
  writes included) and no filter table changes. Only a RESET message is dispatched, to
  \<^verbatim>\<open>ixgbe_vf_reset_msg\<close>. A pending message is one that the transport reads without error
  and that does not already bear a SUCCESS or FAILURE tag.
\<close>

theorem cts_gate:
  assumes "ixgbe_read_mbx a (unat (mbx d IXGBE_VFMAILBOX_SIZE)) vf = (0, msgbuf)"
      and "mbx d IXGBE_VFMAILBOX_SIZE \<noteq> 0"
      and "msgbuf ! 0 AND (mbx d IXGBE_VT_MSGTYPE_SUCCESS OR mbx d IXGBE_VT_MSGTYPE_FAILURE) = 0"
      and "\<not> clear_to_send (vf_rec a vf)"
  shows "ixgbe_rcv_msg_from_vf d e a vf =
           (if msgbuf ! 0 = opc d IXGBE_VF_RESET then ixgbe_vf_reset_msg d e a vf
            else (0, a\<lparr> mbx_out := mbx_out a @
                         [(vf, [msgbuf ! 0 OR mbx d IXGBE_VT_MSGTYPE_FAILURE])] \<rparr>))"
proof -
  have "length msgbuf = unat (mbx d IXGBE_VFMAILBOX_SIZE)"
    using assms(1) by (auto simp: ixgbe_read_mbx_def)
  moreover have "0 < unat (mbx d IXGBE_VFMAILBOX_SIZE)"
    using assms(2) by (simp add: unat_gt_0)
  ultimately obtain w ws where m: "msgbuf = w # ws"
    by (cases msgbuf) auto
  show ?thesis
    using assms(1,3,4)
    by (simp add: ixgbe_rcv_msg_from_vf_def ixgbe_write_mbx_def m)
qed

text \<open>
  VF 1 of the sample adapter has not completed a reset and sends SET\_VLAN (add, VLAN 5):
  the reply is the header with the FAILURE bit, and nothing else changes.
\<close>

theorem cts_gate_witness:
  "ixgbe_rcv_msg_from_vf hdr0 ext0 (adapter0\<lparr> mbx_in := (\<lambda>vf. (0, [0x00010004, 5])) \<rparr>) 1 =
     (0, adapter0\<lparr> mbx_in := (\<lambda>vf. (0, [0x00010004, 5])), mbx_out := [(1, [0x40010004])] \<rparr>)"
  using cts_gate [of "adapter0\<lparr> mbx_in := (\<lambda>vf. (0, [0x00010004, 5])) \<rparr>" hdr0 1
      "[0x00010004, 5] @ replicate 14 0" ext0]
  by (simp add: ixgbe_read_mbx_def hdr0_def adapter0_def vf_rec_def vf0_def)

section \<open>Helper facts about the accessors\<close>

lemma vf_rec_vf_set:
  "vfinfo a = Some t \<Longrightarrow> vf < length t \<Longrightarrow> vf_rec (vf_set vf f a) vf = f (vf_rec a vf)"
  by (simp add: vf_rec_def vf_set_def)

lemma vf_rec_hw [simp]: "vf_rec (a\<lparr> hw := h \<rparr>) vf = vf_rec a vf"
  by (simp add: vf_rec_def)

lemma rd_wr: "rd (wr r v a) r' = (if r' = r then v else rd a r')"
  by (simp add: rd_def wr_def IXGBE_READ_REG_def IXGBE_WRITE_REG_def)

section \<open>MAC ownership\<close>

text \<open>
  Claim C9. Setting a VF's MAC is not atomic on error: for every VF and address, if the
  backend's MAC-filter add fails inside \<^verbatim>\<open>ixgbe_set_vf_mac\<close>, the call reports the failure
  and the VF's stored MAC is the all-zero address, whatever it was before.
\<close>

theorem set_vf_mac_failure_zeroes:
  assumes "vfinfo a = Some t" and "vf < length t"
      and "fst (ixgbe_add_mac_filter e (add_seen e a vf) mac_addr vf) < 0"
  shows "fst (ixgbe_set_vf_mac e a vf mac_addr) < 0 \<and>
         vf_mac_addresses (vf_rec (snd (ixgbe_set_vf_mac e a vf mac_addr)) vf) =
           [0, 0, 0, 0, 0, 0]"
  using assms
  by (simp add: ixgbe_set_vf_mac_def add_seen_def split_beta Let_def vf_rec_vf_set ETH_ALEN_def
      numeral_eq_Suc)

text \<open>
  With the filter table full, changing VF 0's address from 02:..:01 to 02:..:02 fails with
  \<open>-ENOMEM\<close> and leaves VF 0 with no address at all.
\<close>

theorem set_vf_mac_failure_zeroes_witness:
  "vf_mac_addresses (vf_rec adapter_full 0) = mac1 \<and>
   fst (ixgbe_set_vf_mac ext0 adapter_full 0 mac2) = - ENOMEM \<and>
   vf_mac_addresses (vf_rec (snd (ixgbe_set_vf_mac ext0 adapter_full 0 mac2)) 0) =
     [0, 0, 0, 0, 0, 0]"
proof -
  have "fst (ixgbe_add_mac_filter ext0 (add_seen ext0 adapter_full 0) mac2 0) = - ENOMEM"
    by (simp add: add_seen_def ext0_def tbl_add_def tbl_del_def adapter_full_def adapter0_def
        hw0_def vf_rec_def vf0_def mac1_def mac2_def mac3_def)
  moreover have "fst (ixgbe_set_vf_mac ext0 adapter_full 0 mac2) = - ENOMEM"
    by (simp add: ixgbe_set_vf_mac_def ext0_def tbl_add_def tbl_del_def adapter_full_def
        adapter0_def hw0_def vf_rec_def vf0_def mac1_def mac2_def mac3_def split_beta Let_def)
  ultimately show ?thesis
    using set_vf_mac_failure_zeroes [of adapter_full
        "[vf0\<lparr> vf_mac_addresses := mac1, pf_set_mac := True, trusted := True,
              clear_to_send := True \<rparr>,
          vf0\<lparr> vf_mac_addresses := mac2, pf_set_mac := True, clear_to_send := True \<rparr>]"
        0 ext0 mac2]
    by (simp add: adapter_full_def adapter0_def vf_rec_def ENOMEM_def)
qed

section \<open>VLAN requests\<close>

text \<open>
  Claim C7, as amended. A SET\_VLAN request from a VF is rejected with \<open>-1\<close> (the value of
  \<open>-EPERM\<close>) and changes nothing whenever the PF has pinned a port VLAN for the VF or
  traffic classes are active. A request to remove VLAN 0 changes nothing for any VF; it
  returns success when the PF has pinned no port VLAN for the VF and no traffic class is
  active, and is rejected by the first rule otherwise.
\<close>

theorem set_vf_vlan_msg_policy:
  "(0 < pf_vlan (vf_rec a vf) \<or> 0 < dev_num_tc (netdev a) \<longrightarrow>
      ixgbe_set_vf_vlan_msg d e a msgbuf vf = (- 1, a)) \<and>
   (msgbuf ! 1 AND rgm d IXGBE_VLVF_VLANID_MASK = 0 \<and> msginfo d msgbuf = 0 \<longrightarrow>
      snd (ixgbe_set_vf_vlan_msg d e a msgbuf vf) = a \<and>
      (pf_vlan (vf_rec a vf) = 0 \<and> dev_num_tc (netdev a) = 0 \<longrightarrow>
         fst (ixgbe_set_vf_vlan_msg d e a msgbuf vf) = 0))"
  by (auto simp: ixgbe_set_vf_vlan_msg_def Let_def)

text \<open>
  Claim C7 as stated fails in its second part: it says that for every VF a request to
  remove VLAN 0 returns success. VF 0 of the sample adapter has port VLAN 100 pinned; its
  request to remove VLAN 0 (header \<open>0x00000004\<close>, VLAN id 0) is rejected with \<open>-1\<close> by the
  test of lines 970 to 976, which comes before the VLAN 0 test of line 979.
\<close>

theorem set_vf_vlan_msg_remove0_counterexample:
  "pf_vlan (vf_rec adapter_pinned 0) = 100 \<and>
   [0x00000004, 0 :: u32] ! 1 AND rgm hdr0 IXGBE_VLVF_VLANID_MASK = 0 \<and>
   msginfo hdr0 [0x00000004, 0] = 0 \<and>
   ixgbe_set_vf_vlan_msg hdr0 ext0 adapter_pinned [0x00000004, 0] 0 = (- 1, adapter_pinned) \<and>
   (- 1 :: int) \<noteq> 0"
  by (simp add: ixgbe_set_vf_vlan_msg_def msginfo_def hdr0_def adapter_pinned_def adapter0_def
      vf_rec_def vf0_def)

text \<open>
  VF 0 has port VLAN 100: adding VLAN 5 and removing VLAN 0 are both refused. VF 1 has
  none: removing VLAN 0 succeeds, and the adapter is as before in all three cases.
\<close>

theorem set_vf_vlan_msg_policy_witness:
  "ixgbe_set_vf_vlan_msg hdr0 ext0 adapter_pinned [0x00010004, 5] 0 = (- 1, adapter_pinned) \<and>
   ixgbe_set_vf_vlan_msg hdr0 ext0 adapter_pinned [0x00000004, 0] 0 = (- 1, adapter_pinned) \<and>
   ixgbe_set_vf_vlan_msg hdr0 ext0 adapter_pinned [0x00000004, 0] 1 = (0, adapter_pinned)"
proof -
  have p: "pf_vlan (vf_rec adapter_pinned 0) = 100"
    "pf_vlan (vf_rec adapter_pinned (Suc 0)) = 0"
    "dev_num_tc (netdev adapter_pinned) = 0"
    by (simp_all add: adapter_pinned_def adapter0_def vf_rec_def vf0_def)
  have m: "[0x00000004, 0 :: u32] ! 1 AND rgm hdr0 IXGBE_VLVF_VLANID_MASK = 0"
    "msginfo hdr0 [0x00000004, 0] = 0"
    by (simp_all add: hdr0_def msginfo_def)
  show ?thesis
    using set_vf_vlan_msg_policy [of adapter_pinned 0 hdr0 ext0 "[0x00010004, 5]"]
      set_vf_vlan_msg_policy [of adapter_pinned 0 hdr0 ext0 "[0x00000004, 0]"]
      set_vf_vlan_msg_policy [of adapter_pinned 1 hdr0 ext0 "[0x00000004, 0]"]
    by (simp add: p m prod_eq_iff)
qed

section \<open>Maximum frame size\<close>

lemma mfs_roundtrip:
  fixes w :: u32
  assumes "w \<le> 0xFFFF"
  shows "drop_bit 16 (push_bit 16 w) AND 65535 = w"
proof -
  have m: "(65535 :: u32) = mask 16"
    by (simp add: mask_eq_exp_minus_1)
  have "w < 2 ^ 16"
    using assms by (simp add: word_less_nat_alt word_le_nat_alt)
  then have "w AND mask 16 = w"
    by (rule less_mask_eq)
  moreover have "drop_bit 16 (push_bit 16 w) AND mask 16 = w AND mask 16"
    by (rule bit_word_eqI) (auto simp: bit_simps)
  ultimately show ?thesis
    by (simp add: m)
qed

lemma lpe_maxfrs_prop:
  assumes "rgm d IXGBE_MHADD_MFS_SHIFT = 16" and "rgm d IXGBE_MHADD_MFS_MASK = 0xFFFF0000"
      and "max_frame \<le> 0xFFFF"
  shows "stored_max_frame d (snd (lpe_maxfrs d a max_frame)) = max (stored_max_frame d a) max_frame \<and>
         (max_frame \<le> stored_max_frame d a \<longrightarrow> snd (lpe_maxfrs d a max_frame) = a)"
  using assms
  by (auto simp: lpe_maxfrs_def stored_max_frame_def Let_def rd_wr mfs_roundtrip max_def)

lemma stored_max_frame_vfre [simp]:
  "stored_max_frame d (wr (IXGBE_VFRE k) v a) = stored_max_frame d a"
  by (simp add: stored_max_frame_def rd_wr)

text \<open>
  Claim C10. The device-wide stored maximum frame size never decreases under SET\_LPE:
  \<^verbatim>\<open>ixgbe_set_vf_lpe\<close> leaves \<^verbatim>\<open>IXGBE_MAXFRS\<close> as it is when the requested size is at or
  below the stored value, and when the stored value changes, the request exceeded it and
  the new value is the requested size. The requested size is one that
  \<^verbatim>\<open>ixgbe_rcv_msg_from_vf\<close> lets through (at most \<^verbatim>\<open>IXGBE_MAX_JUMBO_FRAME_SIZE\<close>); the frame
  size field is the upper half of the register.
\<close>

theorem set_vf_lpe_monotone:
  assumes "rgm d IXGBE_MHADD_MFS_SHIFT = 16" and "rgm d IXGBE_MHADD_MFS_MASK = 0xFFFF0000"
      and "max_frame \<le> rgm d IXGBE_MAX_JUMBO_FRAME_SIZE"
      and "rgm d IXGBE_MAX_JUMBO_FRAME_SIZE \<le> 0xFFFF"
  shows "stored_max_frame d a \<le> stored_max_frame d (snd (ixgbe_set_vf_lpe d a max_frame vf)) \<and>
         (max_frame \<le> stored_max_frame d a \<longrightarrow>
            rd (snd (ixgbe_set_vf_lpe d a max_frame vf)) IXGBE_MAXFRS = rd a IXGBE_MAXFRS) \<and>
         (stored_max_frame d (snd (ixgbe_set_vf_lpe d a max_frame vf)) \<noteq> stored_max_frame d a \<longrightarrow>
            stored_max_frame d a < max_frame \<and>
            stored_max_frame d (snd (ixgbe_set_vf_lpe d a max_frame vf)) = max_frame)"
proof -
  have mf: "max_frame \<le> 0xFFFF"
    using assms(3,4) by simp
  note p = lpe_maxfrs_prop [OF assms(1,2) mf]
  have q: "stored_max_frame d a' \<le> stored_max_frame d (snd (lpe_maxfrs d a' max_frame)) \<and>
         (max_frame \<le> stored_max_frame d a' \<longrightarrow>
            rd (snd (lpe_maxfrs d a' max_frame)) IXGBE_MAXFRS = rd a' IXGBE_MAXFRS) \<and>
         (stored_max_frame d (snd (lpe_maxfrs d a' max_frame)) \<noteq> stored_max_frame d a' \<longrightarrow>
            stored_max_frame d a' < max_frame \<and>
            stored_max_frame d (snd (lpe_maxfrs d a' max_frame)) = max_frame)" for a'
    using p [of a'] by (auto simp: max_def)
  show ?thesis
  proof (cases "mac_type (hw a) = enu d ixgbe_mac_82599EB")
    case False
    then show ?thesis
      using q [of a] by (simp add: ixgbe_set_vf_lpe_def)
  next
    case True
    show ?thesis
    proof (cases "lpe_err d a max_frame vf = 0")
      case z: True
      show ?thesis
        using q [of "wr (IXGBE_VFRE (vf div 32))
            (rd a (IXGBE_VFRE (vf div 32)) OR push_bit (vf mod 32) 1) a"] True z
        by (simp add: ixgbe_set_vf_lpe_def Let_def rd_wr)
    next
      case nz: False
      show ?thesis
        using True nz by (simp add: ixgbe_set_vf_lpe_def Let_def rd_wr)
    qed
  qed
qed

text \<open>
  On the sample adapter the stored value is 1518: a request for 9000 raises it to 9000, a
  request for 1000 leaves the register as it was.
\<close>

theorem set_vf_lpe_monotone_witness:
  "stored_max_frame hdr0 adapter_1518 = 1518 \<and>
   stored_max_frame hdr0 (snd (ixgbe_set_vf_lpe hdr0 adapter_1518 9000 0)) = 9000 \<and>
   rd (snd (ixgbe_set_vf_lpe hdr0 adapter_1518 1000 0)) IXGBE_MAXFRS = 0x05EE0000"
proof -
  have h: "rgm hdr0 IXGBE_MHADD_MFS_SHIFT = 16" "rgm hdr0 IXGBE_MHADD_MFS_MASK = 0xFFFF0000"
    "rgm hdr0 IXGBE_MAX_JUMBO_FRAME_SIZE = 9728"
    by (simp_all add: hdr0_def)
  have s: "stored_max_frame hdr0 adapter_1518 = 1518"
    by (simp add: stored_max_frame_def adapter_1518_def rd_def IXGBE_READ_REG_def h hw0_def)
  have r: "rd adapter_1518 IXGBE_MAXFRS = 0x05EE0000"
    by (simp add: adapter_1518_def rd_def IXGBE_READ_REG_def hw0_def)
  have e: "stored_max_frame hdr0 (snd (ixgbe_set_vf_lpe hdr0 adapter_1518 9000 0)) = 9000"
    by (simp add: ixgbe_set_vf_lpe_def lpe_maxfrs_def stored_max_frame_def adapter_1518_def
        adapter0_def hw0_def h rd_def wr_def IXGBE_READ_REG_def IXGBE_WRITE_REG_def Let_def)
       (simp add: hdr0_def)
  show ?thesis
    using set_vf_lpe_monotone [of hdr0 9000 adapter_1518 0]
      set_vf_lpe_monotone [of hdr0 1000 adapter_1518 0]
    by (simp add: h s r e)
qed

lemma msg_mac_take [simp]: "take ETH_ALEN (msg_mac m) = msg_mac m"
  by (simp add: msg_mac_def)

text \<open>
  Claim C5, as amended. A SET\_MAC\_ADDR request from an untrusted VF, after the PF has
  pinned a MAC different from the requested address, fails with \<open>-1\<close> (the value of
  \<open>-EPERM\<close>) and leaves the adapter, the stored MAC included, unchanged. The same request
  from a trusted VF, for a valid unicast address, succeeds and stores the requested
  address whenever the backend's filter add succeeds.
\<close>

theorem set_vf_mac_addr_policy:
  assumes "vfinfo a = Some t" and "vf < length t"
  shows "(pf_set_mac (vf_rec a vf) \<and> \<not> trusted (vf_rec a vf) \<and>
            take ETH_ALEN (vf_mac_addresses (vf_rec a vf)) \<noteq> msg_mac msgbuf \<longrightarrow>
            ixgbe_set_vf_mac_addr e a msgbuf vf = (- 1, a)) \<and>
         (trusted (vf_rec a vf) \<and> is_valid_ether_addr (msg_mac msgbuf) \<and>
            0 \<le> fst (ixgbe_add_mac_filter e (add_seen e a vf) (msg_mac msgbuf) vf) \<longrightarrow>
            fst (ixgbe_set_vf_mac_addr e a msgbuf vf) = 0 \<and>
            vf_mac_addresses (vf_rec (snd (ixgbe_set_vf_mac_addr e a msgbuf vf)) vf) =
              msg_mac msgbuf)"
  using assms
  by (auto simp: ixgbe_set_vf_mac_addr_def ixgbe_set_vf_mac_def add_seen_def split_beta Let_def
      vf_rec_vf_set)

text \<open>Unfolding rules for evaluating the sample configuration.\<close>

lemma replicate_ETH_ALEN: "replicate ETH_ALEN x = [x, x, x, x, x, x]"
  by (simp add: ETH_ALEN_def numeral_eq_Suc)

lemma take_ETH_ALEN: "take ETH_ALEN (b0 # b1 # b2 # b3 # b4 # b5 # bs) = [b0, b1, b2, b3, b4, b5]"
  by (simp add: ETH_ALEN_def numeral_eq_Suc)

lemmas sample_defs = adapter_full_def adapter0_def hw0_def vf0_def vf_rec_def mac1_def mac2_def
  mac3_def ext0_def tbl_add_def tbl_del_def msg_mac_def msg_bytes_def word_bytes_def
  replicate_ETH_ALEN take_ETH_ALEN is_valid_ether_addr_def is_multicast_ether_addr_def
  is_zero_ether_addr_def

text \<open>
  Claim C5 as stated fails: it says that the request of a trusted VF always succeeds and
  updates the record. With the filter table full, trusted VF 0 asks for the valid unicast
  address 02:00:00:00:00:02; the handler returns 1 (the reply is FAILURE) and the stored
  address is neither the requested one nor the old one, but zero.
\<close>

theorem set_vf_mac_addr_trusted_counterexample:
  "trusted (vf_rec adapter_full 0) \<and> msg_mac msg_set_mac2 = mac2 \<and> is_valid_ether_addr mac2 \<and>
   fst (ixgbe_set_vf_mac_addr ext0 adapter_full msg_set_mac2 0) = 1 \<and>
   vf_mac_addresses (vf_rec (snd (ixgbe_set_vf_mac_addr ext0 adapter_full msg_set_mac2 0)) 0) =
     [0, 0, 0, 0, 0, 0]"
  by (simp add: ixgbe_set_vf_mac_addr_def ixgbe_set_vf_mac_def msg_set_mac2_def sample_defs
      vf_set_def split_beta Let_def ENOMEM_def)

text \<open>
  Untrusted VF 1, pinned to 02:..:02, asks for 02:..:01 and is refused with nothing
  changed; trusted VF 0 asks for 02:..:02 with room in the filter table and gets it.
\<close>

theorem set_vf_mac_addr_policy_witness:
  "ixgbe_set_vf_mac_addr ext0 adapter_full msg_set_mac1 1 = (- 1, adapter_full) \<and>
   fst (ixgbe_set_vf_mac_addr ext0 (adapter_full\<lparr> hw := hw0 \<rparr>) msg_set_mac2 0) = 0 \<and>
   vf_mac_addresses (vf_rec (snd (ixgbe_set_vf_mac_addr ext0 (adapter_full\<lparr> hw := hw0 \<rparr>)
      msg_set_mac2 0)) 0) = mac2"
proof -
  let ?t = "[vf0\<lparr> vf_mac_addresses := mac1, pf_set_mac := True, trusted := True,
                  clear_to_send := True \<rparr>,
             vf0\<lparr> vf_mac_addresses := mac2, pf_set_mac := True, clear_to_send := True \<rparr>]"
  have t: "vfinfo adapter_full = Some ?t" "vfinfo (adapter_full\<lparr> hw := hw0 \<rparr>) = Some ?t"
    by (simp_all add: adapter_full_def adapter0_def)
  have m: "msg_mac msg_set_mac2 = mac2" "msg_mac msg_set_mac1 = mac1"
    by (simp_all add: msg_set_mac2_def msg_set_mac1_def sample_defs)
  have v: "is_valid_ether_addr mac2"
    by (simp add: sample_defs)
  have r: "vf_rec adapter_full (Suc 0) =
             vf0\<lparr> vf_mac_addresses := mac2, pf_set_mac := True, clear_to_send := True \<rparr>"
    "vf_rec adapter_full 0 = vf0\<lparr> vf_mac_addresses := mac1, pf_set_mac := True, trusted := True,
                  clear_to_send := True \<rparr>"
    by (simp_all add: adapter_full_def adapter0_def vf_rec_def)
  have ok: "0 \<le> fst (ixgbe_add_mac_filter ext0 (add_seen ext0 (adapter_full\<lparr> hw := hw0 \<rparr>) 0) mac2 0)"
    by (simp add: add_seen_def sample_defs)
  have ne: "mac2 \<noteq> mac1" "take ETH_ALEN mac2 = mac2"
    by (simp_all add: mac1_def mac2_def take_ETH_ALEN)
  show ?thesis
    using set_vf_mac_addr_policy [OF t(1), of 1 "msg_set_mac1" ext0]
      set_vf_mac_addr_policy [OF t(2), of 0 msg_set_mac2 ext0]
    by (simp add: m v r ok ne vf0_def)
qed

section \<open>Xcast mode\<close>

lemma vf_rec_wr [simp]: "vf_rec (wr r v a) vf = vf_rec a vf"
  by (simp add: wr_def)

lemma vfinfo_wr [simp]: "vfinfo (wr r v a) = vfinfo a"
  by (simp add: wr_def)




section \<open>Lifecycle\<close>

subsection \<open>Disable while VFs are assigned\<close>

lemma fold_vf_set_vfinfo:
  "(fold (\<lambda>vf. vf_set vf (f vf)) xs a)\<lparr> vfinfo := v \<rparr> = a\<lparr> vfinfo := v \<rparr>"
  by (induction xs arbitrary: a) (simp_all add: vf_set_def)

lemma fold_vf_set_other:
  "flags (fold (\<lambda>vf. vf_set vf (f vf)) xs a) = flags a \<and>
   hw (fold (\<lambda>vf. vf_set vf (f vf)) xs a) = hw a \<and>
   mbx_out (fold (\<lambda>vf. vf_set vf (f vf)) xs a) = mbx_out a"
  by (induction xs arbitrary: a) (simp_all add: vf_set_def)

lemma disable_sriov_teardown:
  "ixgbe_disable_sriov d e a =
     (if flags a AND drv d IXGBE_FLAG_SRIOV_ENABLED = 0
      then (0, a\<lparr> num_vfs := 0, vfinfo := None, mv_list := None \<rparr>)
      else disable_sriov_hw d e
             (case disable_mdd e of
                None \<Rightarrow> a\<lparr> num_vfs := 0, vfinfo := None, mv_list := None \<rparr>
              | Some f \<Rightarrow>
                  if flags a AND drv d IXGBE_FLAG_MDD_ENABLED = 0
                  then a\<lparr> num_vfs := 0, vfinfo := None, mv_list := None, hw := f (hw a) \<rparr>
                  else a\<lparr> num_vfs := 0, vfinfo := None, mv_list := None \<rparr>))"
  by (simp add: ixgbe_disable_sriov_def Let_def fold_vf_set_vfinfo fold_vf_set_other
      split: option.split)

text \<open>
  Claim C2, as amended. When \<^verbatim>\<open>ixgbe_disable_sriov\<close> fails because VFs are assigned to a
  guest, it returns \<open>-EPERM\<close> after the software bookkeeping has been torn down: the
  adapter's VF count is 0 and the VF record table and the MAC-VLAN list are freed. What is
  left standing is the virtualization mode: \<open>flags\<close> (with \<^verbatim>\<open>IXGBE_FLAG_SRIOV_ENABLED\<close>) and
  the PCI device, with its VFs, are as before. A reconfiguration through
  \<^verbatim>\<open>ixgbe_pci_sriov_enable\<close> that hits this failure stops there: it returns the same error
  and the same adapter, and enables nothing.
\<close>

theorem disable_sriov_busy:
  assumes "flags a AND drv d IXGBE_FLAG_SRIOV_ENABLED \<noteq> 0"
      and "pci_vfs_assigned (pdev a) \<noteq> 0"
  shows "fst (ixgbe_disable_sriov d e a) = - EPERM \<and>
         num_vfs (snd (ixgbe_disable_sriov d e a)) = 0 \<and>
         vfinfo (snd (ixgbe_disable_sriov d e a)) = None \<and>
         mv_list (snd (ixgbe_disable_sriov d e a)) = None \<and>
         flags (snd (ixgbe_disable_sriov d e a)) = flags a \<and>
         pdev (snd (ixgbe_disable_sriov d e a)) = pdev a \<and>
         (flags a AND drv d IXGBE_FLAG_SRIOV_CAPABLE \<noteq> 0 \<and>
          of_nat (num_vfs a) \<noteq> (word_of_int n :: u32) \<and>
          pci_num_vf (pdev a) \<noteq> 0 \<and> pci_num_vf (pdev a) \<noteq> n \<longrightarrow>
            ixgbe_pci_sriov_enable d e a n = ixgbe_disable_sriov d e a)"
  using assms
  by (auto simp: disable_sriov_teardown disable_sriov_hw_def ixgbe_pci_sriov_enable_def
      EPERM_def Let_def split: option.split)

text \<open>
  Claim C2 as stated fails: it says that after a Busy-failing disable the VF record table
  and the visible VF count are as they were before the call. The sample adapter has two
  VFs, both assigned; the disable fails with \<open>-EPERM\<close> and leaves a VF count of 0 and no
  table.
\<close>

theorem disable_sriov_busy_counterexample:
  "num_vfs adapter_assigned = 2 \<and> vfinfo adapter_assigned = Some [vf0, vf0] \<and>
   ixgbe_disable_sriov hdr0 ext0 adapter_assigned =
     (- EPERM, adapter_assigned\<lparr> num_vfs := 0, vfinfo := None \<rparr>)"
  by (simp add: disable_sriov_teardown disable_sriov_hw_def adapter_assigned_def adapter0_def
      hdr0_def ext0_def)

text \<open>The same adapter, disabled directly and through a request for four VFs.\<close>

theorem disable_sriov_busy_witness:
  "ixgbe_disable_sriov hdr0 ext0 adapter_assigned =
     (- EPERM, adapter_assigned\<lparr> num_vfs := 0, vfinfo := None \<rparr>) \<and>
   ixgbe_pci_sriov_enable hdr0 ext0 adapter_assigned 4 =
     (- EPERM, adapter_assigned\<lparr> num_vfs := 0, vfinfo := None \<rparr>)"
proof -
  have f: "flags adapter_assigned AND drv hdr0 IXGBE_FLAG_SRIOV_ENABLED \<noteq> 0"
    "flags adapter_assigned AND drv hdr0 IXGBE_FLAG_SRIOV_CAPABLE \<noteq> 0"
    by (simp_all add: adapter_assigned_def adapter0_def hdr0_def)
  have p: "pci_vfs_assigned (pdev adapter_assigned) = 2" "pci_num_vf (pdev adapter_assigned) = 2"
    "num_vfs adapter_assigned = 2"
    by (simp_all add: adapter_assigned_def adapter0_def)
  have e: "snd (ixgbe_disable_sriov hdr0 ext0 adapter_assigned) =
             adapter_assigned\<lparr> num_vfs := 0, vfinfo := None \<rparr>"
    by (simp add: disable_sriov_teardown disable_sriov_hw_def adapter_assigned_def adapter0_def
      hdr0_def ext0_def)
  show ?thesis
    using disable_sriov_busy [where a = adapter_assigned and d = hdr0 and n = 4 and e = ext0]
    by (simp add: f p e prod_eq_iff)
qed

subsection \<open>The traffic-class cap\<close>

lemma disable_sriov_ret:
  "fst (ixgbe_disable_sriov d e a) = 0 \<or> fst (ixgbe_disable_sriov d e a) = - EPERM"
  by (simp add: disable_sriov_teardown disable_sriov_hw_def Let_def)

lemma disable_sriov_netdev:
  "netdev (snd (ixgbe_disable_sriov d e a)) = netdev a"
  by (simp add: disable_sriov_teardown disable_sriov_hw_def Let_def wr_def split: option.split)

lemma disable_sriov_table:
  "vfinfo (snd (ixgbe_disable_sriov d e a)) = None \<and> num_vfs (snd (ixgbe_disable_sriov d e a)) = 0"
  by (simp add: disable_sriov_teardown disable_sriov_hw_def Let_def wr_def split: option.split)

lemma enable_sriov'_ok:
  "\<not> xdp_prog a \<Longrightarrow> kcalloc_vfinfo e \<Longrightarrow> fst (ixgbe_enable_sriov' d e a n) = 0"
  by (simp add: ixgbe_enable_sriov'_def Let_def)

text \<open>
  Claim C6, as amended. On a capable adapter, a request for a VF count that differs from
  the adapter's own is validated against the traffic-class-dependent cap (63 with at most
  one traffic class, 31 with two to four, 15 with more than four) unless the PCI layer
  already reports exactly that many VFs: the check of lines 338 to 357 yields \<open>-EPERM\<close>
  for a count above the cap and lets every other count pass. A request above the cap fails
  with \<open>-EPERM\<close> and no VF table is allocated: without pre-existing VFs the adapter is
  unchanged, with them the old configuration has been disabled first. A request within
  the cap, without pre-existing VFs, returns the requested count when no XDP program is
  attached, the VF table can be allocated and the PCI layer enables the VFs. When the PCI
  layer already reports exactly the requested number of VFs (not zero), the call returns
  that number and the adapter as it is, without looking at the cap. The caps are the
  values of \<^verbatim>\<open>IXGBE_MAX_VFS_1TC\<close>, \<^verbatim>\<open>IXGBE_MAX_VFS_4TC\<close> and \<^verbatim>\<open>IXGBE_MAX_VFS_8TC\<close> in the
  table of the source's comment.
\<close>

theorem sriov_enable_tc_cap:
  assumes "drv d IXGBE_MAX_VFS_1TC = 63" and "drv d IXGBE_MAX_VFS_4TC = 31"
      and "drv d IXGBE_MAX_VFS_8TC = 15"
      and "flags a AND drv d IXGBE_FLAG_SRIOV_CAPABLE \<noteq> 0"
      and "of_nat (num_vfs a) \<noteq> (word_of_int n :: u32)"
  shows "tc_check d a n = (if tc_cap (dev_num_tc (netdev a)) < n then - EPERM else 0) \<and>
         (pci_num_vf (pdev a) \<noteq> 0 \<and> pci_num_vf (pdev a) = n \<longrightarrow>
            ixgbe_pci_sriov_enable d e a n = (n, a)) \<and>
         (pci_num_vf (pdev a) \<noteq> n \<and> tc_cap (dev_num_tc (netdev a)) < n \<longrightarrow>
            fst (ixgbe_pci_sriov_enable d e a n) = - EPERM \<and>
            (if pci_num_vf (pdev a) = 0 then snd (ixgbe_pci_sriov_enable d e a n) = a
             else vfinfo (snd (ixgbe_pci_sriov_enable d e a n)) = None \<and>
                  num_vfs (snd (ixgbe_pci_sriov_enable d e a n)) = 0)) \<and>
         (pci_num_vf (pdev a) = 0 \<and> n \<le> tc_cap (dev_num_tc (netdev a)) \<and>
          \<not> xdp_prog a \<and> kcalloc_vfinfo e \<and> (\<forall>p. fst (pci_enable_sriov e p n) = 0) \<longrightarrow>
            fst (ixgbe_pci_sriov_enable d e a n) = n)"
proof -
  have tcg: "tc_check d a' n = (if tc_cap (dev_num_tc (netdev a')) < n then - EPERM else 0)"
    for a' :: "'a ixgbe_adapter"
    using assms(1,2,3) by (auto simp: tc_check_def tc_cap_def Let_def)
  have ne: "- EPERM \<noteq> (0::int)"
    by (simp add: EPERM_def)
  have chk: "sriov_enable_checked d e a' n = (- EPERM, a')"
    if "netdev a' = netdev a" "tc_cap (dev_num_tc (netdev a)) < n" for a' :: "'a ixgbe_adapter"
    using tcg [of a'] that ne by (simp add: sriov_enable_checked_def)
  have c1: "pci_num_vf (pdev a) \<noteq> 0 \<and> pci_num_vf (pdev a) = n \<longrightarrow>
            ixgbe_pci_sriov_enable d e a n = (n, a)"
    using assms(4,5) by (simp add: ixgbe_pci_sriov_enable_def)
  have c2: "fst (ixgbe_pci_sriov_enable d e a n) = - EPERM \<and>
            (if pci_num_vf (pdev a) = 0 then snd (ixgbe_pci_sriov_enable d e a n) = a
             else vfinfo (snd (ixgbe_pci_sriov_enable d e a n)) = None \<and>
                  num_vfs (snd (ixgbe_pci_sriov_enable d e a n)) = 0)"
    if ne': "pci_num_vf (pdev a) \<noteq> n" and big: "tc_cap (dev_num_tc (netdev a)) < n"
  proof (cases "pci_num_vf (pdev a) = 0")
    case True
    then show ?thesis
      using assms(4,5) chk [of a] big by (simp add: ixgbe_pci_sriov_enable_def)
  next
    case False
    obtain err a' where d: "ixgbe_disable_sriov d e a = (err, a')"
      by (cases "ixgbe_disable_sriov d e a")
    have props: "netdev a' = netdev a" "vfinfo a' = None" "num_vfs a' = 0"
      "err = 0 \<or> err = - EPERM"
      using disable_sriov_netdev [of d e a] disable_sriov_table [of d e a]
        disable_sriov_ret [of d e a] d by simp_all
    show ?thesis
      using False assms(4,5) ne' d props chk [of a'] big
      by (auto simp: ixgbe_pci_sriov_enable_def)
  qed
  have c3: "fst (ixgbe_pci_sriov_enable d e a n) = n"
    if "pci_num_vf (pdev a) = 0" "n \<le> tc_cap (dev_num_tc (netdev a))"
      "\<not> xdp_prog a" "kcalloc_vfinfo e" "\<forall>p. fst (pci_enable_sriov e p n) = 0"
  proof -
    have "tc_check d a n = 0"
      using tcg [of a] that(2) by simp
    moreover have "fst (ixgbe_enable_sriov' d e a (unat (word_of_int n :: u32))) = 0"
      using that(3,4) by (rule enable_sriov'_ok)
    ultimately show ?thesis
      using assms(4,5) that(1,5)
      by (simp add: ixgbe_pci_sriov_enable_def sriov_enable_checked_def split_beta Let_def)
  qed
  show ?thesis
    using tcg [of a] c1 c2 c3 by blast
qed

text \<open>
  Claim C6 as stated fails twice. With four traffic classes, a request for 40 VFs is
  refused with \<open>-EPERM\<close>, which is not the invalid-argument error \<open>-EINVAL\<close> that the same
  function returns three lines earlier for another condition; and when the PCI layer
  already reports 40 VFs, the same request is not validated at all and returns 40.
\<close>

theorem sriov_enable_tc_cap_counterexample:
  "dev_num_tc (netdev adapter_4tc) = 4 \<and>
   ixgbe_pci_sriov_enable hdr0 ext0 adapter_4tc 40 = (- EPERM, adapter_4tc) \<and>
   - EPERM \<noteq> - EINVAL \<and>
   ixgbe_pci_sriov_enable hdr0 ext0
     (adapter_4tc\<lparr> pdev := (pdev adapter_4tc)\<lparr> pci_num_vf := 40 \<rparr> \<rparr>) 40 =
     (40, adapter_4tc\<lparr> pdev := (pdev adapter_4tc)\<lparr> pci_num_vf := 40 \<rparr> \<rparr>)"
  by (simp add: ixgbe_pci_sriov_enable_def sriov_enable_checked_def tc_check_def adapter_4tc_def
      adapter0_def hdr0_def EPERM_def EINVAL_def)

text \<open>
  Four traffic classes: 40 and 32 VFs are refused with the adapter unchanged, 31 are
  enabled. Eight traffic classes: 16 refused, 15 enabled. One traffic class: 64 refused,
  63 enabled. With eight VFs already reported by the PCI layer, a request for eight
  returns eight.
\<close>

theorem sriov_enable_tc_cap_witness:
  "ixgbe_pci_sriov_enable hdr0 ext0 adapter_4tc 40 = (- EPERM, adapter_4tc) \<and>
   ixgbe_pci_sriov_enable hdr0 ext0 adapter_4tc 32 = (- EPERM, adapter_4tc) \<and>
   fst (ixgbe_pci_sriov_enable hdr0 ext0 adapter_4tc 31) = 31 \<and>
   ixgbe_pci_sriov_enable hdr0 ext0 adapter_8tc 16 = (- EPERM, adapter_8tc) \<and>
   fst (ixgbe_pci_sriov_enable hdr0 ext0 adapter_8tc 15) = 15 \<and>
   ixgbe_pci_sriov_enable hdr0 ext0 adapter_1tc 64 = (- EPERM, adapter_1tc) \<and>
   fst (ixgbe_pci_sriov_enable hdr0 ext0 adapter_1tc 63) = 63 \<and>
   tc_check hdr0 adapter_4tc 31 = 0 \<and> tc_check hdr0 adapter_4tc 32 = - EPERM \<and>
   ixgbe_pci_sriov_enable hdr0 ext0 adapter_4tc_pre 8 = (8, adapter_4tc_pre)"
proof -
  have h: "drv hdr0 IXGBE_MAX_VFS_1TC = 63" "drv hdr0 IXGBE_MAX_VFS_4TC = 31"
    "drv hdr0 IXGBE_MAX_VFS_8TC = 15"
    "flags adapter_4tc AND drv hdr0 IXGBE_FLAG_SRIOV_CAPABLE \<noteq> 0"
    "flags adapter_8tc AND drv hdr0 IXGBE_FLAG_SRIOV_CAPABLE \<noteq> 0"
    "flags adapter_1tc AND drv hdr0 IXGBE_FLAG_SRIOV_CAPABLE \<noteq> 0"
    "flags adapter_4tc_pre AND drv hdr0 IXGBE_FLAG_SRIOV_CAPABLE \<noteq> 0"
    by (simp_all add: hdr0_def adapter_4tc_pre_def adapter_8tc_def adapter_1tc_def
        adapter_4tc_def)
  have p: "num_vfs adapter_4tc = 0" "pci_num_vf (pdev adapter_4tc) = 0"
    "dev_num_tc (netdev adapter_4tc) = 4" "\<not> xdp_prog adapter_4tc"
    "num_vfs adapter_8tc = 0" "pci_num_vf (pdev adapter_8tc) = 0"
    "dev_num_tc (netdev adapter_8tc) = 8" "\<not> xdp_prog adapter_8tc"
    "num_vfs adapter_1tc = 0" "pci_num_vf (pdev adapter_1tc) = 0"
    "dev_num_tc (netdev adapter_1tc) = 1" "\<not> xdp_prog adapter_1tc"
    "num_vfs adapter_4tc_pre = 0" "pci_num_vf (pdev adapter_4tc_pre) = 8"
    by (simp_all add: adapter_4tc_pre_def adapter_8tc_def adapter_1tc_def adapter_4tc_def
        adapter0_def)
  have x: "kcalloc_vfinfo ext0" "fst (pci_enable_sriov ext0 q n) = 0" for q n
    by (simp_all add: ext0_def)
  show ?thesis
    using sriov_enable_tc_cap [where d = hdr0 and a = adapter_4tc and n = 40 and e = ext0]
      sriov_enable_tc_cap [where d = hdr0 and a = adapter_4tc and n = 32 and e = ext0]
      sriov_enable_tc_cap [where d = hdr0 and a = adapter_4tc and n = 31 and e = ext0]
      sriov_enable_tc_cap [where d = hdr0 and a = adapter_8tc and n = 16 and e = ext0]
      sriov_enable_tc_cap [where d = hdr0 and a = adapter_8tc and n = 15 and e = ext0]
      sriov_enable_tc_cap [where d = hdr0 and a = adapter_1tc and n = 64 and e = ext0]
      sriov_enable_tc_cap [where d = hdr0 and a = adapter_1tc and n = 63 and e = ext0]
      sriov_enable_tc_cap [where d = hdr0 and a = adapter_4tc_pre and n = 8 and e = ext0]
    by (simp add: h p x tc_cap_def prod_eq_iff)
qed

section \<open>The reset handshake\<close>

subsection \<open>What the helpers leave alone\<close>

lemma soft_hw [simp]: "soft (a\<lparr> hw := h \<rparr>) = soft a"
  by (simp add: soft_def)

lemma soft_mv_list [simp]: "soft (a\<lparr> mv_list := l \<rparr>) = soft a"
  by (simp add: soft_def)

lemma soft_wr [simp]: "soft (wr r v a) = soft a"
  by (simp add: wr_def)

lemma soft_fold:
  assumes "\<And>x b. soft (f x b) = soft b"
  shows "soft (fold f xs a) = soft a"
  by (induction xs arbitrary: a) (simp_all add: assms)

lemma soft_update_vlvf [simp]:
  "soft (update_vlvfb word vlvfb a) = soft a" "soft (update_vlvf d i word vlvfb a) = soft a"
  by (simp_all add: update_vlvfb_def update_vlvf_def Let_def)

lemma soft_clear_vf_vlans_entry [simp]: "soft (clear_vf_vlans_entry d e vf i a) = soft a"
  by (simp add: clear_vf_vlans_entry_def Let_def)

lemma soft_clear_vf_vlans [simp]: "soft (ixgbe_clear_vf_vlans d e a vf) = soft a"
  by (simp add: ixgbe_clear_vf_vlans_def soft_fold)

lemma soft_set_vf_vlan_vf [simp]: "soft (snd (ixgbe_set_vf_vlan_vf d e a add vid vf)) = soft a"
  by (simp add: ixgbe_set_vf_vlan_vf_def Let_def split_beta)

lemma soft_set_vf_vlan [simp]: "soft (snd (ixgbe_set_vf_vlan d e a add vid vf)) = soft a"
  by (simp add: ixgbe_set_vf_vlan_def Let_def split_beta)

lemma soft_macvlan_release [simp]: "soft (macvlan_release e vf k a) = soft a"
  by (simp add: macvlan_release_def Let_def split_beta split: option.split)

lemma soft_set_vf_macvlan [simp]: "soft (snd (ixgbe_set_vf_macvlan e a vf index mac_addr)) = soft a"
  by (simp add: ixgbe_set_vf_macvlan_def Let_def split_beta soft_fold split: option.split)

lemma soft_restart_queue [simp]: "soft (restart_queue d vf queue a) = soft a"
  by (simp add: restart_queue_def Let_def)

lemma soft_write_qde [simp]: "soft (ixgbe_write_qde d a vf qde) = soft a"
  by (simp add: ixgbe_write_qde_def soft_fold)

lemma soft_set_vf_rx_tx [simp]: "soft (ixgbe_set_vf_rx_tx d a vf) = soft a"
  by (simp add: ixgbe_set_vf_rx_tx_def Let_def)

lemma soft_set_vmvir [simp]:
  "soft (ixgbe_set_vmvir d a vid qos vf) = soft a" "soft (ixgbe_clear_vmvir a vf) = soft a"
  by (simp_all add: ixgbe_set_vmvir_def ixgbe_clear_vmvir_def Let_def)

lemma soft_vf_set: "soft (vf_set vf f a) = (map_option (\<lambda>t. t[vf := f (t ! vf)]) (fst (soft a)), snd (soft a))"
  by (simp add: soft_def vf_set_def)

lemma soft_set_vf_lpe [simp]: "soft (snd (ixgbe_set_vf_lpe d a max_frame vf)) = soft a"
  by (simp add: ixgbe_set_vf_lpe_def lpe_maxfrs_def Let_def)

lemma list_update_twice: "xs[i := f (xs[i := y] ! i)] = xs[i := f y]"
  by (cases "i < length xs") (simp_all add: not_less list_update_beyond)

lemma soft_if: "soft (if c then x else y) = (if c then soft x else soft y)"
  by simp

lemma soft_reset_event:
  "soft (ixgbe_vf_reset_event d e a vf) =
     soft (vf_set vf (\<lambda>r. r\<lparr> num_vf_mc_hashes := 0, vf_api := enu d ixgbe_mbox_api_10 \<rparr>) a)"
proof -
  define a1 where "a1 = ixgbe_clear_vf_vlans d e a vf"
  define a2 where "a2 = snd (ixgbe_set_vf_vlan d e a1 True (ucast (pf_vlan (vf_rec a1 vf))) vf)"
  define a3 where "a3 = a2\<lparr> hw := ixgbe_set_vmolr d (hw a2) vf (pf_vlan (vf_rec a2 vf) = 0) \<rparr>"
  define a4 where "a4 =
    (if pf_vlan (vf_rec a3 vf) = 0 \<and> pf_qos (vf_rec a3 vf) = 0 \<and> dev_num_tc (netdev a) = 0
     then ixgbe_clear_vmvir a3 vf
     else if 0 < pf_qos (vf_rec a3 vf)
     then ixgbe_set_vmvir d a3 (pf_vlan (vf_rec a3 vf)) (pf_qos (vf_rec a3 vf)) vf
     else if dev_num_tc (netdev a) = 0
     then ixgbe_set_vmvir d a3 (pf_vlan (vf_rec a3 vf)) (pf_qos (vf_rec a3 vf)) vf
     else ixgbe_set_vmvir d a3 (pf_vlan (vf_rec a3 vf)) (ucast (default_up a3)) vf)"
  define a5 where "a5 = vf_set vf (\<lambda>r. r\<lparr> num_vf_mc_hashes := 0 \<rparr>) a4"
  define a6 where "a6 = a5\<lparr> hw := ixgbe_set_rx_mode e a5 \<rparr>"
  define a7 where "a7 = a6\<lparr> hw := snd (ixgbe_del_mac_filter e a6 (vf_mac_addresses (vf_rec a6 vf)) vf) \<rparr>"
  define a8 where "a8 = snd (ixgbe_set_vf_macvlan e a7 vf 0 [])"
  define a9 where "a9 = vf_set vf (\<lambda>r. r\<lparr> vf_api := enu d ixgbe_mbox_api_10 \<rparr>) a8"
  define a10 where "a10 =
    (if enu d ixgbe_mac_X550 \<le> mac_type (hw a9)
     then fold (\<lambda>word. wr (IXGBE_PFMBMEM vf word) 0) [0..<unat (mbx d IXGBE_VFMAILBOX_SIZE)]
            (fold (restart_queue d vf) [0..<q_per_pool a9] a9)
     else a9)"
  have ev: "ixgbe_vf_reset_event d e a vf = a10"
    unfolding ixgbe_vf_reset_event_def Let_def split_beta a10_def a9_def a8_def a7_def a6_def
      a5_def a4_def a3_def a2_def a1_def
    by (rule refl)
  have "soft a4 = soft a"
    by (simp add: a4_def a3_def a2_def a1_def)
  then have "soft a8 = soft (vf_set vf (\<lambda>r. r\<lparr> num_vf_mc_hashes := 0 \<rparr>) a)"
    by (simp add: a8_def a7_def a6_def a5_def soft_vf_set)
  then have "soft a10 = soft (vf_set vf (\<lambda>r. r\<lparr> vf_api := enu d ixgbe_mbox_api_10 \<rparr>)
       (vf_set vf (\<lambda>r. r\<lparr> num_vf_mc_hashes := 0 \<rparr>) a))"
    by (simp add: a10_def a9_def soft_vf_set soft_fold)
  then show ?thesis
    by (simp add: ev soft_vf_set list_update_twice option.map_comp comp_def)
qed

lemma soft_set_vf_mac:
  "soft (snd (ixgbe_set_vf_mac e a vf m)) =
     soft (vf_set vf (\<lambda>r. r\<lparr> vf_mac_addresses :=
        (if 0 \<le> fst (ixgbe_add_mac_filter e (add_seen e a vf) m vf)
         then take ETH_ALEN m else replicate ETH_ALEN 0) \<rparr>) a)"
  by (simp add: ixgbe_set_vf_mac_def add_seen_def Let_def split_beta soft_vf_set)

lemma vf_rec_soft: "soft a = soft b \<Longrightarrow> vf_rec a vf = vf_rec b vf"
  by (simp add: soft_def vf_rec_def)

lemma bytes_word_byte:
  "ucast (bytes_word [b0, b1, b2, b3]) = b0"
  "ucast (drop_bit 8 (bytes_word [b0, b1, b2, b3])) = b1"
  "ucast (drop_bit 16 (bytes_word [b0, b1, b2, b3])) = b2"
  "ucast (drop_bit 24 (bytes_word [b0, b1, b2, b3])) = b3"
  unfolding bytes_word_def
  by (simp_all, (rule bit_word_eqI, auto simp: bit_simps dest: bit_imp_le_length)+)

lemma word_bytes_bytes_word: "word_bytes (bytes_word [b0, b1, b2, b3]) = [b0, b1, b2, b3]"
  by (simp add: word_bytes_def bytes_word_byte)

lemma reset_reply_mac:
  assumes "length m = ETH_ALEN"
  shows "msg_mac ((memcpy_msg1 [h, 0, 0, 0] m)[3 := x]) = m"
proof -
  obtain b0 b1 b2 b3 b4 b5 where m: "m = [b0, b1, b2, b3, b4, b5]"
    using assms by (auto simp: ETH_ALEN_def length_Suc_conv numeral_eq_Suc)
  show ?thesis
    by (simp add: m memcpy_msg1_def msg_mac_def msg_bytes_def word_bytes_bytes_word
        take_ETH_ALEN)
       (simp add: word_bytes_def ETH_ALEN_def bytes_word_byte)
qed


subsection \<open>\<^verbatim>\<open>ixgbe_clear_vf_vlans\<close> clears the pool bit of the VF\<close>

lemma BIT_clear:
  fixes x :: u32
  assumes "k < 32"
  shows "x AND BIT k = 0 \<Longrightarrow> \<not> bit x k" and "\<not> bit (x XOR BIT k) k \<longleftrightarrow> bit x k"
    and "\<not> bit x k \<Longrightarrow> x AND BIT k = 0"
proof -
  show "\<not> bit x k \<Longrightarrow> x AND BIT k = 0"
    by (rule bit_word_eqI) (auto simp: BIT_def bit_simps)
  have b: "bit (BIT k) k"
    using assms by (simp add: BIT_def bit_simps)
  show "x AND BIT k = 0 \<Longrightarrow> \<not> bit x k"
  proof
    assume z: "x AND BIT k = 0" and x: "bit x k"
    have "bit (x AND BIT k) k"
      using b x by (simp only: bit_and_iff simp_thms)
    then show False
      by (simp add: z)
  qed
  show "\<not> bit (x XOR BIT k) k \<longleftrightarrow> bit x k"
    using b by (simp add: bit_simps)
qed

lemma entry_other:
  assumes "i \<noteq> j"
  shows "rd (clear_vf_vlans_entry d e vf j a) (IXGBE_VLVFB (i * 2 + vf div 32)) =
         rd a (IXGBE_VLVFB (i * 2 + vf div 32))"
  using assms
  by (simp add: clear_vf_vlans_entry_def update_vlvf_def update_vlvfb_def Let_def rd_wr)

lemma entry_own:
  "\<not> bit (rd (clear_vf_vlans_entry d e vf i a) (IXGBE_VLVFB (i * 2 + vf div 32))) (vf mod 32)"
proof (cases "rd a (IXGBE_VLVFB (i * 2 + vf div 32)) AND BIT (vf mod 32) = 0")
  case True
  then show ?thesis
    using BIT_clear(1) [of "vf mod 32" "rd a (IXGBE_VLVFB (i * 2 + vf div 32))"]
    by (simp add: clear_vf_vlans_entry_def Let_def)
next
  case False
  then have "bit (rd a (IXGBE_VLVFB (i * 2 + vf div 32))) (vf mod 32)"
    using BIT_clear(3) [of "vf mod 32" "rd a (IXGBE_VLVFB (i * 2 + vf div 32))"]
    by auto
  then show ?thesis
    using False BIT_clear(2) [of "vf mod 32" "rd a (IXGBE_VLVFB (i * 2 + vf div 32))"]
    by (simp add: clear_vf_vlans_entry_def update_vlvf_def update_vlvfb_def Let_def rd_wr)
qed

lemma clear_loop_above:
  "n \<le> i \<Longrightarrow>
   rd (fold (clear_vf_vlans_entry d e vf) (rev [0..<n]) a) (IXGBE_VLVFB (i * 2 + vf div 32)) =
   rd a (IXGBE_VLVFB (i * 2 + vf div 32))"
  by (induction n arbitrary: a) (simp_all add: entry_other)

lemma clear_loop_below:
  "i < n \<Longrightarrow>
   \<not> bit (rd (fold (clear_vf_vlans_entry d e vf) (rev [0..<n]) a)
            (IXGBE_VLVFB (i * 2 + vf div 32))) (vf mod 32)"
proof (induction n arbitrary: a)
  case 0
  then show ?case by simp
next
  case (Suc n)
  show ?case
  proof (cases "i = n")
    case True
    then show ?thesis
      by (simp add: clear_loop_above entry_own)
  next
    case False
    then have "i < n" using Suc.prems by simp
    then show ?thesis
      using Suc.IH by simp
  qed
qed

lemma clear_vf_vlans_clears:
  "i < unat (rgm d IXGBE_VLVF_ENTRIES) \<Longrightarrow>
   \<not> bit (rd (ixgbe_clear_vf_vlans d e a vf) (IXGBE_VLVFB (i * 2 + vf div 32))) (vf mod 32)"
  by (simp add: ixgbe_clear_vf_vlans_def clear_loop_below)


subsection \<open>\<^verbatim>\<open>ixgbe_vf_reset_msg\<close>\<close>

lemma vf_rec_mbx_out [simp]: "vf_rec (a\<lparr> mbx_out := x \<rparr>) vf = vf_rec a vf"
  by (simp add: vf_rec_def)

lemma reset_reply_cong:
  "vf_rec a vf = vf_rec b vf \<Longrightarrow> mc_filter_type (hw a) = mc_filter_type (hw b) \<Longrightarrow>
   reset_reply d a vf = reset_reply d b vf"
  by (simp add: reset_reply_def)

lemma vf_reset_msg_core:
  fixes d :: headers and e :: "'x externs" and a :: "'x ixgbe_adapter"
  assumes "vfinfo a = Some t" and "vf < length t"
      and "length (vf_mac_addresses (t ! vf)) = ETH_ALEN"
  defines "m \<equiv> reset_mac d e a vf"
  defines "a' \<equiv> snd (ixgbe_vf_reset_msg d e a vf)"
  shows "fst (ixgbe_vf_reset_msg d e a vf) = 0"
    and "vfinfo a' = Some (t[vf := (t ! vf)\<lparr> num_vf_mc_hashes := 0,
                   vf_api := enu d ixgbe_mbox_api_10, vf_mac_addresses := m,
                   clear_to_send := True \<rparr>])"
    and "mbx_out a' = mbx_out a @
                   [(vf, take (unat (mbx d IXGBE_VF_PERMADDR_MSG_LEN)) (reset_reply d a' vf))]"
    and "reset_reply d a' vf ! 0 =
                   (if m \<noteq> [0, 0, 0, 0, 0, 0] \<and> pf_set_mac (t ! vf)
                    then opc d IXGBE_VF_RESET OR mbx d IXGBE_VT_MSGTYPE_SUCCESS
                    else opc d IXGBE_VF_RESET OR mbx d IXGBE_VT_MSGTYPE_FAILURE)"
    and "m \<noteq> [0, 0, 0, 0, 0, 0] \<and> pf_set_mac (t ! vf) \<Longrightarrow> msg_mac (reset_reply d a' vf) = m"
    and "length (reset_reply d a' vf) = 4"
proof -
  let ?r0 = "(t ! vf)\<lparr> num_vf_mc_hashes := 0, vf_api := enu d ixgbe_mbox_api_10 \<rparr>"
  define b0 where "b0 = ixgbe_vf_reset_event d e a vf"
  define b1 where "b1 =
    (if is_zero_ether_addr (vf_mac_addresses (vf_rec b0 vf)) then b0
     else snd (ixgbe_set_vf_mac e b0 vf (vf_mac_addresses (vf_rec b0 vf))))"
  define reg where "reg =
    (if pf_vlan (vf_rec b1 vf) = 0 then rgm d IXGBE_QDE_ENABLE
     else rgm d IXGBE_QDE_ENABLE OR rgm d IXGBE_QDE_HIDE_VLAN)"
  define b2 where "b2 = ixgbe_write_qde d b1 vf reg"
  define b3 where "b3 = ixgbe_set_vf_rx_tx d b2 vf"
  define b4 where "b4 = vf_set vf (\<lambda>r. r\<lparr> clear_to_send := True \<rparr>) b3"
  define b5 where "b5 = wr (IXGBE_VMECM (vf div 32))
    (rd b4 (IXGBE_VMECM (vf div 32)) OR push_bit (vf mod 32) 1) b4"
  define b6 where "b6 = fold (\<lambda>i a. wr (IXGBE_PVFTDWBALn (q_per_pool a) vf i) 0
                             (wr (IXGBE_PVFTDWBAHn (q_per_pool a) vf i) 0 a))
                [0..<q_per_pool b5] b5"
  define b7 where "b7 = ixgbe_write_mbx b6 (reset_reply d b6 vf)
    (unat (mbx d IXGBE_VF_PERMADDR_MSG_LEN)) vf"
  have res: "ixgbe_vf_reset_msg d e a vf = (0, b7)"
    unfolding ixgbe_vf_reset_msg_def Let_def b7_def b6_def b5_def b4_def b3_def b2_def reg_def
      b1_def b0_def
    by (rule refl)
  have a': "a' = b7"
    by (simp add: a'_def res)
  have s0: "soft b0 = (Some (t[vf := ?r0]), mbx_out a)"
    using assms(1) by (simp add: b0_def soft_reset_event soft_vf_set) (simp add: soft_def)
  then have r0: "vf_rec b0 vf = ?r0"
    using assms(2) by (simp add: soft_def vf_rec_def)
  have ra: "vf_rec a vf = t ! vf"
    using assms(1) by (simp add: vf_rec_def)
  have tk: "take ETH_ALEN (vf_mac_addresses (t ! vf)) = vf_mac_addresses (t ! vf)"
    using assms(3) by simp
  have mdef: "m =
    (if is_zero_ether_addr (vf_mac_addresses (t ! vf)) then vf_mac_addresses (t ! vf)
     else if 0 \<le> fst (ixgbe_add_mac_filter e (add_seen e b0 vf) (vf_mac_addresses (t ! vf)) vf)
     then vf_mac_addresses (t ! vf) else [0, 0, 0, 0, 0, 0])"
    by (simp add: m_def reset_mac_def ra b0_def Let_def)
  have s1: "soft b1 = (Some (t[vf := ?r0\<lparr> vf_mac_addresses := m \<rparr>]), mbx_out a)"
    using assms(2) s0
    by (simp add: b1_def r0 soft_set_vf_mac soft_vf_set mdef tk replicate_ETH_ALEN)
  have s6: "soft b6 = (Some (t[vf := ?r0\<lparr> vf_mac_addresses := m, clear_to_send := True \<rparr>]),
      mbx_out a)"
    using assms(2) s1
    by (simp add: b6_def b5_def b4_def b3_def b2_def soft_fold soft_vf_set)
  have r6: "vf_rec b6 vf = ?r0\<lparr> vf_mac_addresses := m, clear_to_send := True \<rparr>"
    using assms(2) s6 by (simp add: soft_def vf_rec_def)
  have rep: "reset_reply d b7 vf = reset_reply d b6 vf"
    by (rule reset_reply_cong) (simp_all add: b7_def ixgbe_write_mbx_def)
  have zero: "is_zero_ether_addr m \<longleftrightarrow> m = [0, 0, 0, 0, 0, 0]"
    using assms(3)
    by (auto simp: mdef is_zero_ether_addr_def replicate_ETH_ALEN take_ETH_ALEN)
  have len: "length m = ETH_ALEN"
    using assms(3) by (simp add: mdef ETH_ALEN_def)
  show "fst (ixgbe_vf_reset_msg d e a vf) = 0"
    by (simp add: res)
  show "vfinfo a' = Some (t[vf := (t ! vf)\<lparr> num_vf_mc_hashes := 0,
                   vf_api := enu d ixgbe_mbox_api_10, vf_mac_addresses := m,
                   clear_to_send := True \<rparr>])"
    using s6 by (simp add: a' b7_def ixgbe_write_mbx_def soft_def)
  show "mbx_out a' = mbx_out a @
      [(vf, take (unat (mbx d IXGBE_VF_PERMADDR_MSG_LEN)) (reset_reply d a' vf))]"
    using s6 unfolding a' rep by (simp add: b7_def ixgbe_write_mbx_def soft_def)
  show "reset_reply d a' vf ! 0 =
                   (if m \<noteq> [0, 0, 0, 0, 0, 0] \<and> pf_set_mac (t ! vf)
                    then opc d IXGBE_VF_RESET OR mbx d IXGBE_VT_MSGTYPE_SUCCESS
                    else opc d IXGBE_VF_RESET OR mbx d IXGBE_VT_MSGTYPE_FAILURE)"
    unfolding a' rep by (simp add: reset_reply_def r6 zero memcpy_msg1_def Let_def)
  show "msg_mac (reset_reply d a' vf) = m" if "m \<noteq> [0, 0, 0, 0, 0, 0] \<and> pf_set_mac (t ! vf)"
    using that len unfolding a' rep by (simp add: reset_reply_def r6 zero Let_def reset_reply_mac)
  show "length (reset_reply d a' vf) = 4"
    using len unfolding a' rep
    by (auto simp: reset_reply_def r6 zero Let_def memcpy_msg1_def msg_bytes_def word_bytes_def
        ETH_ALEN_def length_Suc_conv numeral_eq_Suc)
qed

subsection \<open>A second pass of \<^verbatim>\<open>ixgbe_clear_vf_vlans\<close> changes nothing\<close>

lemma entry_skip:
  "\<not> bit (rd a (IXGBE_VLVFB (i * 2 + vf div 32))) (vf mod 32) \<Longrightarrow>
   clear_vf_vlans_entry d e vf i a = a"
  using BIT_clear(3) [of "vf mod 32" "rd a (IXGBE_VLVFB (i * 2 + vf div 32))"]
  by (simp add: clear_vf_vlans_entry_def Let_def)

lemma clear_loop_skip:
  "(\<forall>i \<in> set xs. \<not> bit (rd a (IXGBE_VLVFB (i * 2 + vf div 32))) (vf mod 32)) \<Longrightarrow>
   fold (clear_vf_vlans_entry d e vf) xs a = a"
  by (induction xs) (simp_all add: entry_skip)

lemma clear_vf_vlans_idem:
  "ixgbe_clear_vf_vlans d e (ixgbe_clear_vf_vlans d e a vf) vf = ixgbe_clear_vf_vlans d e a vf"
proof -
  have "\<forall>i \<in> set (rev [0..<unat (rgm d IXGBE_VLVF_ENTRIES)]).
      \<not> bit (rd (ixgbe_clear_vf_vlans d e a vf) (IXGBE_VLVFB (i * 2 + vf div 32))) (vf mod 32)"
    by (simp add: clear_vf_vlans_clears)
  then have "fold (clear_vf_vlans_entry d e vf) (rev [0..<unat (rgm d IXGBE_VLVF_ENTRIES)])
      (ixgbe_clear_vf_vlans d e a vf) = ixgbe_clear_vf_vlans d e a vf"
    by (rule clear_loop_skip)
  then show ?thesis
    by (simp add: ixgbe_clear_vf_vlans_def)
qed

lemma netdev_wr [simp]: "netdev (wr r v a) = netdev a"
  by (simp add: wr_def)

lemma netdev_clear_entry: "netdev (clear_vf_vlans_entry d e vf i a) = netdev a"
  by (simp add: clear_vf_vlans_entry_def update_vlvf_def update_vlvfb_def Let_def)

lemma netdev_fold:
  assumes "\<And>x b. netdev (f x b) = netdev b"
  shows "netdev (fold f xs a) = netdev a"
  by (induction xs arbitrary: a) (simp_all add: assms)

lemma netdev_clear_vf_vlans: "netdev (ixgbe_clear_vf_vlans d e a vf) = netdev a"
  by (simp add: ixgbe_clear_vf_vlans_def netdev_fold netdev_clear_entry)

lemma reset_event_cleared:
  "ixgbe_vf_reset_event d e (ixgbe_clear_vf_vlans d e a vf) vf = ixgbe_vf_reset_event d e a vf"
  unfolding ixgbe_vf_reset_event_def
  by (simp only: clear_vf_vlans_idem netdev_clear_vf_vlans)

lemma reset_msg_cleared:
  "ixgbe_vf_reset_msg d e (ixgbe_clear_vf_vlans d e a vf) vf = ixgbe_vf_reset_msg d e a vf"
  unfolding ixgbe_vf_reset_msg_def
  by (simp only: reset_event_cleared)

subsection \<open>The pool-enable words after the clearing pass\<close>

text \<open>
  The reset path writes the \<^verbatim>\<open>IXGBE_VLVFB\<close> words in \<^verbatim>\<open>ixgbe_clear_vf_vlans\<close> only; past it
  they change only if a backend function changes them.
\<close>

lemma vb_wr:
  "(\<And>k. r \<noteq> IXGBE_VLVFB k) \<Longrightarrow> vlvfb_regs (hw (wr r v a)) = vlvfb_regs (hw a)"
  by (rule ext) (auto simp: vlvfb_regs_def wr_def IXGBE_WRITE_REG_def)

lemma vb_vf_set [simp]: "hw (vf_set vf f a) = hw a"
  by (simp add: vf_set_def)

lemma vb_fold:
  assumes "\<And>x b. vlvfb_regs (hw (f x b)) = vlvfb_regs (hw b)"
  shows "vlvfb_regs (hw (fold f xs a)) = vlvfb_regs (hw a)"
  by (induction xs arbitrary: a) (simp_all add: assms)

lemma keeps_vlvfbD:
  assumes "keeps_vlvfb e"
  shows "vlvfb_regs (snd (ixgbe_add_mac_filter e a m vf)) = vlvfb_regs (hw a)"
    and "vlvfb_regs (snd (ixgbe_del_mac_filter e a m vf)) = vlvfb_regs (hw a)"
    and "vlvfb_regs (snd (set_vfta e h vid pool vlan_on bypass)) = vlvfb_regs h"
    and "vlvfb_regs (ixgbe_update_pf_promisc_vlvf e a vid) = vlvfb_regs (hw a)"
    and "vlvfb_regs (ixgbe_set_rx_mode e a) = vlvfb_regs (hw a)"
  using assms by (simp_all add: keeps_vlvfb_def)

lemma vb_set_vf_vlan_vf:
  "keeps_vlvfb e \<Longrightarrow>
   vlvfb_regs (hw (snd (ixgbe_set_vf_vlan_vf d e a add vid vf))) = vlvfb_regs (hw a)"
  by (simp add: ixgbe_set_vf_vlan_vf_def Let_def split_beta keeps_vlvfbD)

lemma vb_set_vf_vlan:
  "keeps_vlvfb e \<Longrightarrow>
   vlvfb_regs (hw (snd (ixgbe_set_vf_vlan d e a add vid vf))) = vlvfb_regs (hw a)"
  by (simp add: ixgbe_set_vf_vlan_def Let_def split_beta keeps_vlvfbD vb_set_vf_vlan_vf)

lemma vb_set_vmolr: "vlvfb_regs (ixgbe_set_vmolr d h vf aupe) = vlvfb_regs h"
  by (rule ext) (simp add: ixgbe_set_vmolr_def vlvfb_regs_def IXGBE_WRITE_REG_def Let_def)

lemma vb_set_vmvir:
  "vlvfb_regs (hw (ixgbe_set_vmvir d a vid qos vf)) = vlvfb_regs (hw a)"
  "vlvfb_regs (hw (ixgbe_clear_vmvir a vf)) = vlvfb_regs (hw a)"
  by (simp_all add: ixgbe_set_vmvir_def ixgbe_clear_vmvir_def Let_def vb_wr)

lemma vb_macvlan_release:
  "keeps_vlvfb e \<Longrightarrow> vlvfb_regs (hw (macvlan_release e vf k a)) = vlvfb_regs (hw a)"
  by (simp add: macvlan_release_def Let_def split_beta keeps_vlvfbD split: option.split)

lemma vb_set_vf_macvlan:
  "keeps_vlvfb e \<Longrightarrow>
   vlvfb_regs (hw (snd (ixgbe_set_vf_macvlan e a vf index mac_addr))) = vlvfb_regs (hw a)"
  by (simp add: ixgbe_set_vf_macvlan_def Let_def split_beta vb_fold vb_macvlan_release
      keeps_vlvfbD split: option.split)

lemma vb_restart_queue: "vlvfb_regs (hw (restart_queue d vf queue a)) = vlvfb_regs (hw a)"
  by (simp add: restart_queue_def Let_def vb_wr)

lemma vb_write_qde: "vlvfb_regs (hw (ixgbe_write_qde d a vf qde)) = vlvfb_regs (hw a)"
  by (simp add: ixgbe_write_qde_def vb_fold vb_wr)

lemma vb_set_vf_rx_tx: "vlvfb_regs (hw (ixgbe_set_vf_rx_tx d a vf)) = vlvfb_regs (hw a)"
  by (simp add: ixgbe_set_vf_rx_tx_def Let_def vb_wr)

lemma vb_set_vf_mac:
  "keeps_vlvfb e \<Longrightarrow> vlvfb_regs (hw (snd (ixgbe_set_vf_mac e a vf m))) = vlvfb_regs (hw a)"
  by (simp add: ixgbe_set_vf_mac_def Let_def split_beta keeps_vlvfbD)

lemma vb_reset_event:
  assumes k: "keeps_vlvfb e"
  shows "vlvfb_regs (hw (ixgbe_vf_reset_event d e a vf)) =
         vlvfb_regs (hw (ixgbe_clear_vf_vlans d e a vf))"
proof -
  define a1 where "a1 = ixgbe_clear_vf_vlans d e a vf"
  define a2 where "a2 = snd (ixgbe_set_vf_vlan d e a1 True (ucast (pf_vlan (vf_rec a1 vf))) vf)"
  define a3 where "a3 = a2\<lparr> hw := ixgbe_set_vmolr d (hw a2) vf (pf_vlan (vf_rec a2 vf) = 0) \<rparr>"
  define a4 where "a4 =
    (if pf_vlan (vf_rec a3 vf) = 0 \<and> pf_qos (vf_rec a3 vf) = 0 \<and> dev_num_tc (netdev a) = 0
     then ixgbe_clear_vmvir a3 vf
     else if 0 < pf_qos (vf_rec a3 vf)
     then ixgbe_set_vmvir d a3 (pf_vlan (vf_rec a3 vf)) (pf_qos (vf_rec a3 vf)) vf
     else if dev_num_tc (netdev a) = 0
     then ixgbe_set_vmvir d a3 (pf_vlan (vf_rec a3 vf)) (pf_qos (vf_rec a3 vf)) vf
     else ixgbe_set_vmvir d a3 (pf_vlan (vf_rec a3 vf)) (ucast (default_up a3)) vf)"
  define a5 where "a5 = vf_set vf (\<lambda>r. r\<lparr> num_vf_mc_hashes := 0 \<rparr>) a4"
  define a6 where "a6 = a5\<lparr> hw := ixgbe_set_rx_mode e a5 \<rparr>"
  define a7 where "a7 = a6\<lparr> hw := snd (ixgbe_del_mac_filter e a6 (vf_mac_addresses (vf_rec a6 vf)) vf) \<rparr>"
  define a8 where "a8 = snd (ixgbe_set_vf_macvlan e a7 vf 0 [])"
  define a9 where "a9 = vf_set vf (\<lambda>r. r\<lparr> vf_api := enu d ixgbe_mbox_api_10 \<rparr>) a8"
  define a10 where "a10 =
    (if enu d ixgbe_mac_X550 \<le> mac_type (hw a9)
     then fold (\<lambda>word. wr (IXGBE_PFMBMEM vf word) 0) [0..<unat (mbx d IXGBE_VFMAILBOX_SIZE)]
            (fold (restart_queue d vf) [0..<q_per_pool a9] a9)
     else a9)"
  have ev: "ixgbe_vf_reset_event d e a vf = a10"
    unfolding ixgbe_vf_reset_event_def Let_def split_beta a10_def a9_def a8_def a7_def a6_def
      a5_def a4_def a3_def a2_def a1_def
    by (rule refl)
  have "vlvfb_regs (hw a3) = vlvfb_regs (hw a1)"
    using k by (simp add: a3_def a2_def vb_set_vmolr vb_set_vf_vlan)
  then have "vlvfb_regs (hw a4) = vlvfb_regs (hw a1)"
    by (simp add: a4_def vb_set_vmvir)
  then have "vlvfb_regs (hw a7) = vlvfb_regs (hw a1)"
    using k by (simp add: a7_def a6_def a5_def keeps_vlvfbD)
  then have "vlvfb_regs (hw a9) = vlvfb_regs (hw a1)"
    using k by (simp add: a9_def a8_def vb_set_vf_macvlan)
  then have "vlvfb_regs (hw a10) = vlvfb_regs (hw a1)"
    by (simp add: a10_def vb_fold vb_wr vb_restart_queue)
  then show ?thesis
    by (simp add: ev a1_def)
qed

lemma vb_reset_msg:
  assumes k: "keeps_vlvfb e"
  shows "vlvfb_regs (hw (snd (ixgbe_vf_reset_msg d e a vf))) =
         vlvfb_regs (hw (ixgbe_clear_vf_vlans d e a vf))"
proof -
  define b0 where "b0 = ixgbe_vf_reset_event d e a vf"
  define b1 where "b1 =
    (if is_zero_ether_addr (vf_mac_addresses (vf_rec b0 vf)) then b0
     else snd (ixgbe_set_vf_mac e b0 vf (vf_mac_addresses (vf_rec b0 vf))))"
  define reg where "reg =
    (if pf_vlan (vf_rec b1 vf) = 0 then rgm d IXGBE_QDE_ENABLE
     else rgm d IXGBE_QDE_ENABLE OR rgm d IXGBE_QDE_HIDE_VLAN)"
  define b2 where "b2 = ixgbe_write_qde d b1 vf reg"
  define b3 where "b3 = ixgbe_set_vf_rx_tx d b2 vf"
  define b4 where "b4 = vf_set vf (\<lambda>r. r\<lparr> clear_to_send := True \<rparr>) b3"
  define b5 where "b5 = wr (IXGBE_VMECM (vf div 32))
    (rd b4 (IXGBE_VMECM (vf div 32)) OR push_bit (vf mod 32) 1) b4"
  define b6 where "b6 = fold (\<lambda>i a. wr (IXGBE_PVFTDWBALn (q_per_pool a) vf i) 0
                             (wr (IXGBE_PVFTDWBAHn (q_per_pool a) vf i) 0 a))
                [0..<q_per_pool b5] b5"
  define b7 where "b7 = ixgbe_write_mbx b6 (reset_reply d b6 vf)
    (unat (mbx d IXGBE_VF_PERMADDR_MSG_LEN)) vf"
  have res: "ixgbe_vf_reset_msg d e a vf = (0, b7)"
    unfolding ixgbe_vf_reset_msg_def Let_def b7_def b6_def b5_def b4_def b3_def b2_def reg_def
      b1_def b0_def
    by (rule refl)
  have "vlvfb_regs (hw b1) = vlvfb_regs (hw b0)"
    using k by (simp add: b1_def vb_set_vf_mac)
  then have "vlvfb_regs (hw b5) = vlvfb_regs (hw b0)"
    by (simp add: b5_def b4_def b3_def b2_def vb_wr vb_set_vf_rx_tx vb_write_qde)
  then have "vlvfb_regs (hw b7) = vlvfb_regs (hw b0)"
    by (simp add: b7_def b6_def ixgbe_write_mbx_def vb_fold vb_wr)
  then show ?thesis
    using vb_reset_event [OF k, of d a vf] by (simp add: res b0_def)
qed

lemma reset_msg_vlvfb_clear:
  assumes "keeps_vlvfb e" and "i < unat (rgm d IXGBE_VLVF_ENTRIES)"
  shows "\<not> bit (rd (snd (ixgbe_vf_reset_msg d e a vf)) (IXGBE_VLVFB (i * 2 + vf div 32)))
              (vf mod 32)"
proof -
  have "rd (snd (ixgbe_vf_reset_msg d e a vf)) (IXGBE_VLVFB k) =
        rd (ixgbe_clear_vf_vlans d e a vf) (IXGBE_VLVFB k)" for k
    using fun_cong [OF vb_reset_msg [OF assms(1), of d a vf], of k]
    by (simp add: vlvfb_regs_def rd_def IXGBE_READ_REG_def)
  then show ?thesis
    using clear_vf_vlans_clears [OF assms(2), of e a vf] by simp
qed

text \<open>
  Claim C4, as amended. Processing a RESET message from a VF returns 0 and sets the VF's
  \<open>clear_to_send\<close> flag. Its record is otherwise the old one with the API version back at
  \<^verbatim>\<open>ixgbe_mbox_api_10\<close>, the multicast hash count at zero and the MAC as stored when it is
  zero or the backend takes it again after the reset event, and zero when the backend
  refuses. Exactly one message of four words goes to the VF's channel, after all of this:
  RESET with SUCCESS and the MAC when the PF has pinned a MAC, the stored MAC is non-zero
  and the backend has taken it again; RESET with FAILURE in every other case. The handler
  begins by clearing the VF's pool bit in every VLAN filter entry
  (\<^verbatim>\<open>ixgbe_clear_vf_vlans\<close>), before the PF-assigned VLAN or VLAN 0 is added back: its result
  is the one it yields from the adapter so cleared, in which the VF's pool bit is set in no
  entry, and with a backend that leaves the pool-enable words alone the bit is set in no
  entry of the resulting adapter either.
\<close>

theorem vf_reset_msg_handshake:
  assumes "vfinfo a = Some t" and "vf < length t"
      and "length (vf_mac_addresses (t ! vf)) = ETH_ALEN"
  shows "case ixgbe_vf_reset_msg d e a vf of (ret, a') \<Rightarrow>
           ret = 0 \<and>
           vfinfo a' = Some (t[vf := (t ! vf)\<lparr> num_vf_mc_hashes := 0,
              vf_api := enu d ixgbe_mbox_api_10, vf_mac_addresses := reset_mac d e a vf,
              clear_to_send := True \<rparr>]) \<and>
           mbx_out a' = mbx_out a @
              [(vf, take (unat (mbx d IXGBE_VF_PERMADDR_MSG_LEN)) (reset_reply d a' vf))] \<and>
           length (reset_reply d a' vf) = 4 \<and>
           reset_reply d a' vf ! 0 =
              (if pf_set_mac (t ! vf) \<and> \<not> is_zero_ether_addr (vf_mac_addresses (t ! vf)) \<and>
                  0 \<le> fst (ixgbe_add_mac_filter e
                            (add_seen e (ixgbe_vf_reset_event d e a vf) vf)
                            (vf_mac_addresses (t ! vf)) vf)
               then opc d IXGBE_VF_RESET OR mbx d IXGBE_VT_MSGTYPE_SUCCESS
               else opc d IXGBE_VF_RESET OR mbx d IXGBE_VT_MSGTYPE_FAILURE) \<and>
           (pf_set_mac (t ! vf) \<and> \<not> is_zero_ether_addr (vf_mac_addresses (t ! vf)) \<and>
            0 \<le> fst (ixgbe_add_mac_filter e
                      (add_seen e (ixgbe_vf_reset_event d e a vf) vf)
                      (vf_mac_addresses (t ! vf)) vf) \<longrightarrow>
              msg_mac (reset_reply d a' vf) = vf_mac_addresses (t ! vf)) \<and>
           ixgbe_vf_reset_msg d e (ixgbe_clear_vf_vlans d e a vf) vf = (ret, a') \<and>
           (\<forall>i < unat (rgm d IXGBE_VLVF_ENTRIES).
              \<not> bit (rd (ixgbe_clear_vf_vlans d e a vf) (IXGBE_VLVFB (i * 2 + vf div 32)))
                     (vf mod 32)) \<and>
           (keeps_vlvfb e \<longrightarrow>
              (\<forall>i < unat (rgm d IXGBE_VLVF_ENTRIES).
                 \<not> bit (rd a' (IXGBE_VLVFB (i * 2 + vf div 32))) (vf mod 32)))"
proof -
  let ?mac = "vf_mac_addresses (t ! vf)"
  let ?ok = "0 \<le> fst (ixgbe_add_mac_filter e (add_seen e (ixgbe_vf_reset_event d e a vf) vf)
     ?mac vf)"
  have ra: "vf_rec a vf = t ! vf"
    using assms(1) by (simp add: vf_rec_def)
  have z: "is_zero_ether_addr ?mac \<longleftrightarrow> ?mac = [0, 0, 0, 0, 0, 0]"
    using assms(3) by (simp add: is_zero_ether_addr_def replicate_ETH_ALEN)
  have m: "reset_mac d e a vf \<noteq> [0, 0, 0, 0, 0, 0] \<longleftrightarrow> \<not> is_zero_ether_addr ?mac \<and> ?ok"
    using z by (auto simp: reset_mac_def ra Let_def)
  have m2: "reset_mac d e a vf = ?mac" if "\<not> is_zero_ether_addr ?mac \<and> ?ok"
    using that by (simp add: reset_mac_def ra Let_def)
  obtain ret a' where r: "ixgbe_vf_reset_msg d e a vf = (ret, a')"
    by (cases "ixgbe_vf_reset_msg d e a vf")
  note c = vf_reset_msg_core [OF assms, of d e, unfolded r snd_conv fst_conv]
  have v: "keeps_vlvfb e \<Longrightarrow> i < unat (rgm d IXGBE_VLVF_ENTRIES) \<Longrightarrow>
      \<not> bit (rd a' (IXGBE_VLVFB (i * 2 + vf div 32))) (vf mod 32)" for i
    using reset_msg_vlvfb_clear [of e i d a vf] by (simp add: r)
  have w: "reset_reply d a' vf ! 0 =
      (if pf_set_mac (t ! vf) \<and> \<not> is_zero_ether_addr ?mac \<and> ?ok
       then opc d IXGBE_VF_RESET OR mbx d IXGBE_VT_MSGTYPE_SUCCESS
       else opc d IXGBE_VF_RESET OR mbx d IXGBE_VT_MSGTYPE_FAILURE)"
    using c(4) m by auto
  have x: "msg_mac (reset_reply d a' vf) = ?mac"
    if "pf_set_mac (t ! vf) \<and> \<not> is_zero_ether_addr ?mac \<and> ?ok"
    using c(5) m m2 that by auto
  show ?thesis
    unfolding r prod.case
    using c(1,2,3,6) w x v
    by (simp add: reset_msg_cleared r clear_vf_vlans_clears)
qed

text \<open>
  Claim C4 as stated fails: it says that the reply is SUCCESS plus the MAC whenever the PF
  has pinned a MAC. The PF has pinned 02:00:00:00:00:01 on VF 0, and the backend has no
  free filter slot when the handler puts the address back: the address is zeroed and the
  one reply written is RESET with FAILURE (\<open>0x40000001\<close>).
\<close>

theorem vf_reset_msg_counterexample:
  "pf_set_mac (vf_rec adapter_full 0) \<and> vf_mac_addresses (vf_rec adapter_full 0) = mac1 \<and>
   map (\<lambda>p. (fst p, hd (snd p))) (mbx_out (snd (ixgbe_vf_reset_msg hdr0 ext_nospace adapter_full 0))) =
     [(0, 0x40000001)]"
proof -
  let ?t = "[vf0\<lparr> vf_mac_addresses := mac1, pf_set_mac := True, trusted := True,
                  clear_to_send := True \<rparr>,
             vf0\<lparr> vf_mac_addresses := mac2, pf_set_mac := True, clear_to_send := True \<rparr>]"
  have t: "vfinfo adapter_full = Some ?t" "0 < length ?t"
    "length (vf_mac_addresses (?t ! 0)) = ETH_ALEN"
    by (simp_all add: adapter_full_def adapter0_def mac1_def ETH_ALEN_def)
  have m: "reset_mac hdr0 ext_nospace adapter_full 0 = [0, 0, 0, 0, 0, 0]"
    by (simp add: reset_mac_def ext_nospace_def adapter_full_def adapter0_def vf_rec_def mac1_def
        is_zero_ether_addr_def take_ETH_ALEN replicate_ETH_ALEN ENOMEM_def)
  have o: "mbx_out adapter_full = []"
    by (simp add: adapter_full_def adapter0_def)
  have h: "opc hdr0 IXGBE_VF_RESET OR mbx hdr0 IXGBE_VT_MSGTYPE_FAILURE = 0x40000001"
    "unat (mbx hdr0 IXGBE_VF_PERMADDR_MSG_LEN) = 4"
    by (simp_all add: hdr0_def)
  have p: "pf_set_mac (vf_rec adapter_full 0)" "vf_mac_addresses (vf_rec adapter_full 0) = mac1"
    by (simp_all add: adapter_full_def adapter0_def vf_rec_def)
  let ?reply = "reset_reply hdr0 (snd (ixgbe_vf_reset_msg hdr0 ext_nospace adapter_full 0)) 0"
  have l: "length ?reply = 4" and r: "?reply ! 0 = 0x40000001"
    and w: "mbx_out (snd (ixgbe_vf_reset_msg hdr0 ext_nospace adapter_full 0)) = [(0, take 4 ?reply)]"
    using vf_reset_msg_core(3,4,6) [OF t, of hdr0 ext_nospace]
    by (simp_all add: m o h)
  have "hd (take 4 ?reply) = ?reply ! 0"
    using l by (cases ?reply) simp_all
  then show ?thesis
    by (simp add: p w r)
qed

lemma keeps_vlvfb_ext_room: "keeps_vlvfb ext_room"
  by (simp add: keeps_vlvfb_def ext_room_def ext0_def tbl_del_def vlvfb_regs_def Let_def
      fun_eq_iff)

text \<open>
  VF 1 of the sample adapter with VLAN 5, pinned to 02:00:00:00:00:02, resets with room in
  the filter table: it is clear to send, at API 1.0, without multicast hashes, the one
  reply is RESET with SUCCESS and that address, and its pool bit in \<^verbatim>\<open>VLVFB(6)\<close>, set
  before, is clear. VF 0, which has no address, gets RESET with FAILURE.
\<close>

theorem vf_reset_msg_handshake_witness:
  "bit (rd adapter_vlan (IXGBE_VLVFB 6)) 1 \<and>
   clear_to_send (vf_rec adapter_vlan 1) = False \<and> vf_api (vf_rec adapter_vlan 1) = 4 \<and>
   fst (ixgbe_vf_reset_msg hdr0 ext_room adapter_vlan 1) = 0 \<and>
   vf_rec (snd (ixgbe_vf_reset_msg hdr0 ext_room adapter_vlan 1)) 1 =
     vf0\<lparr> vf_mac_addresses := mac2, pf_set_mac := True, clear_to_send := True \<rparr> \<and>
   map (\<lambda>p. (fst p, hd (snd p), msg_mac (snd p)))
     (mbx_out (snd (ixgbe_vf_reset_msg hdr0 ext_room adapter_vlan 1))) = [(1, 0x80000001, mac2)] \<and>
   \<not> bit (rd (snd (ixgbe_vf_reset_msg hdr0 ext_room adapter_vlan 1)) (IXGBE_VLVFB 6)) 1 \<and>
   map (\<lambda>p. (fst p, hd (snd p)))
     (mbx_out (snd (ixgbe_vf_reset_msg hdr0 ext_room adapter_vlan 0))) = [(0, 0x40000001)]"
proof -
  let ?t = "[vf0, vf0\<lparr> vf_mac_addresses := mac2, pf_set_mac := True, vf_api := 4,
                       num_vf_mc_hashes := 3 \<rparr>]"
  let ?r1 = "ixgbe_vf_reset_msg hdr0 ext_room adapter_vlan 1"
  let ?r0 = "ixgbe_vf_reset_msg hdr0 ext_room adapter_vlan 0"
  have t: "vfinfo adapter_vlan = Some ?t" "1 < length ?t"
    "length (vf_mac_addresses (?t ! 1)) = ETH_ALEN"
    by (simp_all add: adapter_vlan_def adapter0_def mac2_def ETH_ALEN_def)
  have t0: "0 < length ?t" "length (vf_mac_addresses (?t ! 0)) = ETH_ALEN"
    by (simp_all add: vf0_def ETH_ALEN_def)
  have b: "bit (rd adapter_vlan (IXGBE_VLVFB 6)) 1"
    "clear_to_send (vf_rec adapter_vlan 1) = False" "vf_api (vf_rec adapter_vlan 1) = 4"
    by (simp_all add: adapter_vlan_def adapter0_def hw0_def rd_def IXGBE_READ_REG_def vf_rec_def
        vf0_def)
  have o: "mbx_out adapter_vlan = []"
    by (simp add: adapter_vlan_def adapter0_def)
  have h: "enu hdr0 ixgbe_mbox_api_10 = 0" "unat (rgm hdr0 IXGBE_VLVF_ENTRIES) = 64"
    "opc hdr0 IXGBE_VF_RESET OR mbx hdr0 IXGBE_VT_MSGTYPE_SUCCESS = 0x80000001"
    "opc hdr0 IXGBE_VF_RESET OR mbx hdr0 IXGBE_VT_MSGTYPE_FAILURE = 0x40000001"
    "unat (mbx hdr0 IXGBE_VF_PERMADDR_MSG_LEN) = 4"
    by (simp_all add: hdr0_def)
  have a: "fst (ixgbe_add_mac_filter ext_room x m vf) = 0" for x m vf
    by (simp add: ext_room_def)
  have z: "\<not> is_zero_ether_addr mac2" "is_zero_ether_addr (vf_mac_addresses vf0)"
    by (simp_all add: is_zero_ether_addr_def mac2_def vf0_def take_ETH_ALEN replicate_ETH_ALEN)
  have rm: "reset_mac hdr0 ext_room adapter_vlan (Suc 0) = mac2"
    using z(1) by (simp add: reset_mac_def adapter_vlan_def adapter0_def vf_rec_def a Let_def)
  note k = keeps_vlvfb_ext_room
  note th1 = vf_reset_msg_handshake [OF t, of hdr0 ext_room]
  note th0 = vf_reset_msg_handshake [OF t(1) t0, of hdr0 ext_room]
  have f1: "fst ?r1 = 0"
    and v1: "vfinfo (snd ?r1) = Some [vf0, vf0\<lparr> vf_mac_addresses := mac2, pf_set_mac := True,
        clear_to_send := True \<rparr>]"
    and w1: "mbx_out (snd ?r1) = [(1, take 4 (reset_reply hdr0 (snd ?r1) 1))]"
    and l1: "length (reset_reply hdr0 (snd ?r1) 1) = 4"
    and s1: "reset_reply hdr0 (snd ?r1) 1 ! 0 = 0x80000001"
    and m1: "msg_mac (reset_reply hdr0 (snd ?r1) 1) = mac2"
    using th1 by (simp_all add: split_beta o h a z rm vf0_def)
  have "\<forall>i<64. \<not> bit (rd (snd ?r1) (IXGBE_VLVFB (i * 2 + 1 div 32))) (1 mod 32)"
    using th1 k by (simp add: split_beta h)
  then have c1: "\<not> bit (rd (snd ?r1) (IXGBE_VLVFB 6)) 1"
    by (auto dest: spec [of _ 3])
  have w0: "mbx_out (snd ?r0) = [(0, take 4 (reset_reply hdr0 (snd ?r0) 0))]"
    and l0: "length (reset_reply hdr0 (snd ?r0) 0) = 4"
    and s0: "reset_reply hdr0 (snd ?r0) 0 ! 0 = 0x40000001"
    using th0 by (simp_all add: split_beta o h z vf0_def)
  have hd1: "hd (reset_reply hdr0 (snd ?r1) 1) = reset_reply hdr0 (snd ?r1) 1 ! 0"
    using l1 by (cases "reset_reply hdr0 (snd ?r1) 1") simp_all
  have hd0: "hd (reset_reply hdr0 (snd ?r0) 0) = reset_reply hdr0 (snd ?r0) 0 ! 0"
    using l0 by (cases "reset_reply hdr0 (snd ?r0) 0") simp_all
  show ?thesis
    using b f1 c1 w1 w0 l1 l0 hd1 hd0 s1 s0 m1 v1 by (simp add: vf_rec_def)
qed

section \<open>Responses of the protocol engine\<close>

text \<open>No handler of the dispatch touches the outgoing mailbox: the only write after the
  clear-to-send gate is the one at the end of \<^verbatim>\<open>ixgbe_rcv_msg_from_vf\<close>.\<close>

lemma mbx_out_soft: "mbx_out a = snd (soft a)"
  by (simp add: soft_def)

lemma soft_set_vf_mac_addr: "snd (soft (snd (ixgbe_set_vf_mac_addr e a msgbuf vf))) = snd (soft a)"
  by (simp add: ixgbe_set_vf_mac_addr_def Let_def split_beta soft_set_vf_mac soft_vf_set)

lemma soft_set_vf_multicasts:
  "snd (soft (snd (ixgbe_set_vf_multicasts d e a msgbuf vf))) = snd (soft a)"
  by (simp add: ixgbe_set_vf_multicasts_def Let_def soft_vf_set)

lemma soft_set_vf_vlan_msg:
  "snd (soft (snd (ixgbe_set_vf_vlan_msg d e a msgbuf vf))) = snd (soft a)"
  by (simp add: ixgbe_set_vf_vlan_msg_def Let_def)

lemma soft_set_vf_macvlan_msg:
  "snd (soft (snd (ixgbe_set_vf_macvlan_msg d e a msgbuf vf))) = snd (soft a)"
  by (simp add: ixgbe_set_vf_macvlan_msg_def Let_def split_beta)

lemma soft_negotiate_vf_api:
  "snd (soft (snd (ixgbe_negotiate_vf_api d a msgbuf vf))) = snd (soft a)"
  by (simp add: ixgbe_negotiate_vf_api_def Let_def soft_vf_set)

lemma soft_update_vf_xcast_mode:
  "snd (soft (snd (snd (ixgbe_update_vf_xcast_mode d a msgbuf vf)))) = snd (soft a)"
  by (simp add: ixgbe_update_vf_xcast_mode_def xcast_apply_def Let_def soft_vf_set
      split: sum.split prod.split)

lemma soft_update_vf_xcast_mode':
  "ixgbe_update_vf_xcast_mode d a msgbuf vf = (r, m, a') \<Longrightarrow> snd (soft a') = snd (soft a)"
  using soft_update_vf_xcast_mode [of d a msgbuf vf] by simp

lemma tag_twice: "m[0 := m[0 := x] ! 0 OR c] = m[0 := x OR c]"
  by (cases m) simp_all

lemmas soft_handlers = soft_set_vf_mac_addr soft_set_vf_multicasts soft_set_vf_vlan_msg
  soft_set_vf_macvlan_msg soft_negotiate_vf_api soft_update_vf_xcast_mode

lemma rcv_msg_switch_Inr:
  assumes "rcv_msg_switch d e a msgbuf vf = Inr (r, m, a')"
  shows "mbx_out a' = mbx_out a"
  using assms
  by (auto simp: rcv_msg_switch_def Let_def split_beta mbx_out_soft soft_handlers
      dest: soft_update_vf_xcast_mode' split: if_splits)

text \<open>The dispatch leaves the function early in one case only: a
  \<^verbatim>\<open>IXGBE_VF_SET_LPE\<close> request above \<^verbatim>\<open>IXGBE_MAX_JUMBO_FRAME_SIZE\<close>, which returns
  \<^verbatim>\<open>-EINVAL\<close> with the adapter untouched.\<close>

lemma rcv_msg_switch_Inl:
  assumes "rcv_msg_switch d e a msgbuf vf = Inl x"
  shows "x = (- EINVAL, a) \<and> msgbuf ! 0 AND 0xFFFF = opc d IXGBE_VF_SET_LPE \<and>
         rgm d IXGBE_MAX_JUMBO_FRAME_SIZE < msgbuf ! 1"
  using assms
  by (auto simp: rcv_msg_switch_def Let_def split_beta split: if_splits)

text \<open>Every request that falls out of the bottom of the switch is answered once, on the
  channel it came from, tagged \<^verbatim>\<open>CTS\<close> and carrying \<^verbatim>\<open>SUCCESS\<close> for a zero result and
  \<^verbatim>\<open>FAILURE\<close> otherwise.\<close>

lemma rcv_msg_replies_once:
  assumes "ixgbe_read_mbx a (unat (mbx d IXGBE_VFMAILBOX_SIZE)) vf = (0, msgbuf)"
      and "msgbuf ! 0 AND (mbx d IXGBE_VT_MSGTYPE_SUCCESS OR mbx d IXGBE_VT_MSGTYPE_FAILURE) = 0"
      and "msgbuf ! 0 \<noteq> opc d IXGBE_VF_RESET"
      and "clear_to_send (vf_rec a vf)"
      and "rcv_msg_switch d e a msgbuf vf = Inr (r, m, a')"
  shows "ixgbe_rcv_msg_from_vf d e a vf =
           (r, a'\<lparr> mbx_out := mbx_out a @
              [(vf, take (unat (mbx d IXGBE_VFMAILBOX_SIZE))
                 (m[0 := m ! 0 OR (if r = 0 then mbx d IXGBE_VT_MSGTYPE_SUCCESS
                                   else mbx d IXGBE_VT_MSGTYPE_FAILURE)
                            OR mbx d IXGBE_VT_MSGTYPE_CTS]))] \<rparr>)"
  using assms rcv_msg_switch_Inr [OF assms(5)]
  by (simp add: ixgbe_rcv_msg_from_vf_def rcv_msg_reply_def ixgbe_write_mbx_def Let_def
      tag_twice or.assoc)

text \<open>Claim C3. The claim is that every decoded, not already processed request of a VF
  that passes the clear-to-send gate is answered by exactly one response, and that no
  dispatched request ends without one. The source does not do this for an oversize
  \<^verbatim>\<open>IXGBE_VF_SET_LPE\<close>: VF 1 of the sample adapter is clear to send, the mailbox
  read succeeds, the header \<^verbatim>\<open>0x05\<close> carries neither status bit and is not a reset, and the
  request is dispatched to the \<^verbatim>\<open>IXGBE_VF_SET_LPE\<close> case; with 9729 in word 1 the function
  returns \<^verbatim>\<open>-EINVAL\<close> from inside the switch, the adapter is unchanged and nothing has been
  written to the outgoing mailbox.\<close>

theorem rcv_msg_oversize_lpe_no_reply:
  "clear_to_send (vf_rec adapter_pinned 1) \<and>
   ixgbe_rcv_msg_from_vf hdr0 ext0 (adapter_pinned\<lparr> mbx_in := (\<lambda>vf. (0, msg_lpe_oversize)) \<rparr>) 1 =
     (- EINVAL, adapter_pinned\<lparr> mbx_in := (\<lambda>vf. (0, msg_lpe_oversize)) \<rparr>) \<and>
   mbx_out (adapter_pinned\<lparr> mbx_in := (\<lambda>vf. (0, msg_lpe_oversize)) \<rparr>) = []"
  by (simp add: ixgbe_rcv_msg_from_vf_def rcv_msg_switch_def ixgbe_read_mbx_def
      msg_lpe_oversize_def adapter_pinned_def adapter0_def vf_rec_def vf0_def hdr0_def EINVAL_def)

end
